theory Spec2Isabelle
  imports Main
begin

section \<open>The relational data the views read and write\<close>

text \<open>
  The views of \<^verbatim>\<open>RealEstate/apps/core/views.py\<close> are request handlers over
  database tables. A table is the list of its rows in the order a query returns them; a
  foreign key is the primary key of the row it points to. The model classes themselves
  are not part of the sources, so a row carries the fields the views use.
  A Homebuyer's couple is optional here: the home view is specified also for a Homebuyer
  that no Couple contains.
\<close>

record realtor =
  realtor_id :: int
  realtor_user :: int

record couple =
  couple_id :: int
  couple_realtor :: int

record homebuyer =
  homebuyer_id :: int
  homebuyer_user :: int
  homebuyer_couple :: "int option"

record house =
  house_id :: int
  house_couple :: int

record category =
  category_id :: int
  category_couple :: int

record grade =
  grade_id :: int
  grade_homebuyer :: int
  grade_category :: int
  grade_house :: int
  grade_score :: int

record pending_couple =
  pending_couple_id :: int
  pending_couple_realtor :: int

record pending_homebuyer =
  pending_homebuyer_id :: int
  pending_homebuyer_email :: string
  pending_homebuyer_pending_couple :: int

record db =
  Realtor_objects :: "realtor list"
  Couple_objects :: "couple list"
  Homebuyer_objects :: "homebuyer list"
  House_objects :: "house list"
  Category_objects :: "category list"
  Grade_objects :: "grade list"
  PendingCouple_objects :: "pending_couple list"
  PendingHomebuyer_objects :: "pending_homebuyer list"

section \<open>Requests, responses and exceptions\<close>

text \<open>
  \<open>request.user.role_object\<close> resolves the actor to its Homebuyer row, its Realtor
  row or nothing. It belongs to the User model, which is outside the sources, so the
  resolved role is part of the user the request carries. An anonymous request has no user.
\<close>

datatype role = Homebuyer_role homebuyer | Realtor_role realtor

record user =
  user_id :: int
  role_object :: "role option"

datatype http_method = GET | POST

record request =
  req_user :: "user option"
  is_ajax :: bool
  POST_data :: "string \<rightharpoonup> string"

text \<open>Every exception a view can raise is a value; \<open>Inl\<close> of it is the raise.\<close>

datatype error =
    PermissionDenied
  | Http404
  | Neither_a_Homebuyer_nor_a_Realtor
  | UnboundLocalError
  | KeyError
  | ValueError
  | AttributeError
  | DoesNotExist
  | MultipleObjectsReturned
  | IntegrityError
  | OverflowError
  | EmailError

record score_context =
  min_score :: int
  max_score :: int
  min_choice :: string
  max_choice :: string
  default_score :: int
  js_scores :: "(int \<times> string) list"

type_synonym couple_data =
  "(couple + pending_couple) \<times> (homebuyer list + pending_homebuyer list) \<times> bool"

text \<open>
  A response is a redirect, a rendered template with the context the view hands to it,
  or the JSON acknowledgement of the evaluation write path.
\<close>

datatype response =
    Redirect string
  | Render_homebuyerHome "couple list" "house list"
  | Render_realtorHome "couple_data list" "house list" "realtor list"
  | Render_houseEval "couple list" house "(category \<times> int option) list" score_context
  | HttpResponse_json "(string \<times> string) list"

text \<open>
  What the views use and the sources do not define: Python's \<open>is\<close> on two integer
  objects and \<open>int()\<close> on a string, the integers the database backend takes as the value
  of a query or of a column (handing it any other integer raises \<open>OverflowError\<close>), the
  choices and the default of the Grade score field, the validation of the invitation form
  (the two cleaned emails when it is valid), whether creating a PendingHomebuyer with an
  email is accepted next to the rows already there, and whether sending the invitation mail
  returns. The views are modelled for every choice of them.
\<close>

record env =
  py_is :: "int \<Rightarrow> int \<Rightarrow> bool"
  py_int :: "string \<Rightarrow> int option"
  db_integer :: "int \<Rightarrow> bool"
  score_choices :: "(int \<times> string) list"
  score_default :: int
  form_cleaned_data :: "(string \<rightharpoonup> string) \<Rightarrow> (string \<times> string) option"
  pending_homebuyer_accepted :: "pending_homebuyer list \<Rightarrow> string \<Rightarrow> bool"
  send_email_invite :: "pending_homebuyer \<Rightarrow> bool"

text \<open>
  CPython keeps one shared object for each integer from -5 to 256 and builds a new object
  for any other value it reads from the database, so \<open>is\<close> on two identifiers loaded by
  two queries holds exactly when they are equal and in that range.
\<close>

definition cpython_is :: "int \<Rightarrow> int \<Rightarrow> bool" where
  "cpython_is a b \<longleftrightarrow> a = b \<and> -5 \<le> a \<and> a \<le> 256"

text \<open>
  SQLite, the backend Django starts a project with, takes the signed 64-bit integers. The
  house identifier of the URL is a string of digits of any length, so it can be larger.
\<close>

definition sqlite_integer :: "int \<Rightarrow> bool" where
  "sqlite_integer i \<longleftrightarrow> - (2 ^ 63) \<le> i \<and> i < 2 ^ 63"

section \<open>Query helpers\<close>

text \<open>
  \<open>Couple.objects.filter(homebuyer__user=request.user)\<close>: the couples that have a
  Homebuyer of the user. A user has at most one Homebuyer row in the application, so the
  join lists a couple once.
\<close>

definition Couple_filter_homebuyer_user :: "db \<Rightarrow> int \<Rightarrow> couple list" where
  "Couple_filter_homebuyer_user d uid =
     [c \<leftarrow> Couple_objects d.
        list_ex (\<lambda>h. homebuyer_user h = uid \<and> homebuyer_couple h = Some (couple_id c))
          (Homebuyer_objects d)]"

text \<open>\<open>Realtor.objects.filter(user=request.user)\<close>\<close>

definition Realtor_filter_user :: "db \<Rightarrow> int \<Rightarrow> realtor list" where
  "Realtor_filter_user d uid = [r \<leftarrow> Realtor_objects d. realtor_user r = uid]"

text \<open>
  A filter whose value is itself a query result (\<open>filter(couple=couple)\<close>,
  \<open>filter(realtor=realtor)\<close>) keeps the rows whose foreign key is the key of a row of
  that result. A user has at most one Homebuyer and one Realtor row in the application, so
  the result has at most one row and the lookup is the comparison with it.
\<close>

definition House_filter_couple :: "db \<Rightarrow> couple list \<Rightarrow> house list" where
  "House_filter_couple d cs = [h \<leftarrow> House_objects d. house_couple h \<in> set (map couple_id cs)]"

definition Category_filter_couple :: "db \<Rightarrow> couple list \<Rightarrow> category list" where
  "Category_filter_couple d cs =
     [c \<leftarrow> Category_objects d. category_couple c \<in> set (map couple_id cs)]"

definition Couple_filter_realtor :: "db \<Rightarrow> realtor list \<Rightarrow> couple list" where
  "Couple_filter_realtor d rs =
     [c \<leftarrow> Couple_objects d. couple_realtor c \<in> set (map realtor_id rs)]"

definition PendingCouple_filter_realtor :: "db \<Rightarrow> realtor list \<Rightarrow> pending_couple list" where
  "PendingCouple_filter_realtor d rs =
     [p \<leftarrow> PendingCouple_objects d. pending_couple_realtor p \<in> set (map realtor_id rs)]"

text \<open>\<open>Homebuyer.objects.filter(couple=couple)\<close> for one Couple row\<close>

definition Homebuyer_filter_couple :: "db \<Rightarrow> couple \<Rightarrow> homebuyer list" where
  "Homebuyer_filter_couple d c =
     [h \<leftarrow> Homebuyer_objects d. homebuyer_couple h = Some (couple_id c)]"

text \<open>\<open>PendingHomebuyer.objects.filter(pending_couple=pendingCouple)\<close>\<close>

definition PendingHomebuyer_filter_pending_couple ::
  "db \<Rightarrow> pending_couple \<Rightarrow> pending_homebuyer list" where
  "PendingHomebuyer_filter_pending_couple d p =
     [h \<leftarrow> PendingHomebuyer_objects d.
        pending_homebuyer_pending_couple h = pending_couple_id p]"

text \<open>\<open>Grade.objects.filter(house=house, homebuyer=homebuyer)\<close>\<close>

definition Grade_filter_house_homebuyer :: "db \<Rightarrow> house \<Rightarrow> homebuyer \<Rightarrow> grade list" where
  "Grade_filter_house_homebuyer d h hb =
     [g \<leftarrow> Grade_objects d. grade_house g = house_id h \<and> grade_homebuyer g = homebuyer_id hb]"

text \<open>
  \<open>queryset.get()\<close>: the only row, \<open>DoesNotExist\<close> for none and
  \<open>MultipleObjectsReturned\<close> for several. \<open>get_object_or_404\<close> turns the first of
  the two into \<open>Http404\<close>.
\<close>

fun queryset_get :: "'a list \<Rightarrow> error + 'a" where
  "queryset_get [] = Inl DoesNotExist"
| "queryset_get [x] = Inr x"
| "queryset_get (x # y # zs) = Inl MultipleObjectsReturned"

definition get_object_or_404 :: "'a list \<Rightarrow> error + 'a" where
  "get_object_or_404 qs =
     (case queryset_get qs of
        Inl DoesNotExist \<Rightarrow> Inl Http404
      | Inl e \<Rightarrow> Inl e
      | Inr x \<Rightarrow> Inr x)"

text \<open>
  \<open>queryset.first()\<close> on an unordered query: the row with the least primary key, or
  \<open>None\<close>.
\<close>

fun queryset_first :: "('a \<Rightarrow> int) \<Rightarrow> 'a list \<Rightarrow> 'a option" where
  "queryset_first pk [] = None"
| "queryset_first pk (x # xs) = Some (fold (\<lambda>y b. if pk y < pk b then y else b) xs x)"

text \<open>The key an auto-increment primary key column gives the next row.\<close>

definition next_id :: "int list \<Rightarrow> int" where
  "next_id ids = fold max ids 0 + 1"

section \<open>BaseView\<close>

text \<open>
  Modelled from the spec: \<open>role.role_type\<close> and \<open>User._ALL_TYPES_ALLOWED\<close> belong to the
  models, which the sources leave out. A role is a Homebuyer or a Realtor, and by default
  both may see every view, as the docstring of \<open>BaseView\<close> says too.
\<close>

fun role_type :: "role \<Rightarrow> string" where
  "role_type (Homebuyer_role _) = ''Homebuyer''"
| "role_type (Realtor_role _) = ''Realtor''"

definition ALL_TYPES_ALLOWED :: "string list" where
  "ALL_TYPES_ALLOWED = [''Homebuyer'', ''Realtor'']"

text \<open>\<open>BaseView._permission_check\<close>\<close>

definition BaseView_permission_check :: "role \<Rightarrow> error + bool" where
  "BaseView_permission_check r = Inr True"

text \<open>
  \<open>BaseView.dispatch\<close> under \<open>login_required\<close>: an anonymous request is redirected to
  the login page; the handler of the request's method runs only for a role of an allowed
  type that passes the view's permission check; everything else raises
  \<open>PermissionDenied\<close>. The handler gets the authenticated user and the role.
\<close>

definition BaseView_dispatch ::
  "(role \<Rightarrow> error + bool) \<Rightarrow> (user \<Rightarrow> role \<Rightarrow> (error + response) \<times> db) \<Rightarrow> db \<Rightarrow> request
     \<Rightarrow> (error + response) \<times> db" where
  "BaseView_dispatch permission_check handler d req =
     (case req_user req of
        None \<Rightarrow> (Inr (Redirect ''login''), d)
      | Some u \<Rightarrow>
          (case role_object u of
             None \<Rightarrow> (Inl PermissionDenied, d)
           | Some r \<Rightarrow>
               if role_type r \<in> set ALL_TYPES_ALLOWED then
                 (case permission_check r of
                    Inl e \<Rightarrow> (Inl e, d)
                  | Inr True \<Rightarrow> handler u r
                  | Inr False \<Rightarrow> (Inl PermissionDenied, d))
               else (Inl PermissionDenied, d)))"

section \<open>EvalView\<close>

text \<open>
  \<open>EvalView._permission_check\<close>: only a Homebuyer whose couple has the house passes.
  \<open>role.couple\<close> of a Homebuyer without a couple is \<open>None\<close>, and reading
  \<open>house_set\<close> from it raises. The query \<open>filter(id=house_id).exists()\<close> raises for an
  identifier the database does not take.
\<close>

definition EvalView_permission_check :: "env \<Rightarrow> db \<Rightarrow> int \<Rightarrow> role \<Rightarrow> error + bool" where
  "EvalView_permission_check e d hid r =
     (if role_type r = ''Homebuyer'' then
        (case r of
           Homebuyer_role hb \<Rightarrow>
             (case homebuyer_couple hb of
                None \<Rightarrow> Inl AttributeError
              | Some cid \<Rightarrow>
                  if \<not> db_integer e hid then Inl OverflowError
                  else if list_ex (\<lambda>h. house_couple h = cid \<and> house_id h = hid)
                            (House_objects d)
                  then Inr True else Inr False)
         | Realtor_role _ \<Rightarrow> Inr False)
      else Inr False)"

text \<open>
  Python's \<open>dict(choices)\<close>, \<open>d[k]\<close>, and \<open>min\<close> and \<open>max\<close> over a sequence,
  which raise on a missing key and on an empty sequence.
\<close>

fun dict_setitem :: "'k \<Rightarrow> 'v \<Rightarrow> ('k \<times> 'v) list \<Rightarrow> ('k \<times> 'v) list" where
  "dict_setitem k v [] = [(k, v)]"
| "dict_setitem k v ((k', v') # kvs) =
     (if k' = k then (k, v) # kvs else (k', v') # dict_setitem k v kvs)"

definition py_dict :: "('k \<times> 'v) list \<Rightarrow> ('k \<times> 'v) list" where
  "py_dict pairs = foldl (\<lambda>dct (k, v). dict_setitem k v dct) [] pairs"

definition dict_getitem :: "('k \<times> 'v) list \<Rightarrow> 'k \<Rightarrow> error + 'v" where
  "dict_getitem dct k = (case map_of dct k of None \<Rightarrow> Inl KeyError | Some v \<Rightarrow> Inr v)"

fun py_min :: "int list \<Rightarrow> error + int" where
  "py_min [] = Inl ValueError"
| "py_min (x # xs) = Inr (fold min xs x)"

fun py_max :: "int list \<Rightarrow> error + int" where
  "py_max [] = Inl ValueError"
| "py_max (x # xs) = Inr (fold max xs x)"

text \<open>
  \<open>EvalView._score_context\<close>. \<open>js_scores\<close> is the dictionary handed to
  \<open>json.dumps\<close>; its text form is the template's matter.
\<close>

definition EvalView_score_context :: "(int \<times> string) list \<Rightarrow> int \<Rightarrow> error + score_context" where
  "EvalView_score_context choices dflt =
     (let score_choices = py_dict choices in
      case py_min (map fst score_choices) of
        Inl e \<Rightarrow> Inl e
      | Inr mn \<Rightarrow>
      (case py_max (map fst score_choices) of
        Inl e \<Rightarrow> Inl e
      | Inr mx \<Rightarrow>
      (case dict_getitem score_choices mn of
        Inl e \<Rightarrow> Inl e
      | Inr mn_choice \<Rightarrow>
      (case dict_getitem score_choices mx of
        Inl e \<Rightarrow> Inl e
      | Inr mx_choice \<Rightarrow>
          Inr \<lparr>min_score = mn, max_score = mx, min_choice = mn_choice,
               max_choice = mx_choice, default_score = dflt,
               js_scores = score_choices\<rparr>))))"

text \<open>
  The two loops of \<open>EvalView.get\<close>. The inner one walks the grades until one belongs to
  the category (\<open>grade.category.id is category.id\<close>), appends the pair and breaks; it
  returns the list and the flag \<open>missing\<close>. The outer one appends the ungraded pair when
  the flag is still set.
\<close>

fun grades_loop ::
  "(int \<Rightarrow> int \<Rightarrow> bool) \<Rightarrow> category \<Rightarrow> grade list \<Rightarrow> (category \<times> int option) list
     \<Rightarrow> (category \<times> int option) list \<times> bool" where
  "grades_loop is_op c [] graded = (graded, True)"
| "grades_loop is_op c (g # gs) graded =
     (if is_op (grade_category g) (category_id c)
      then (graded @ [(c, Some (grade_score g))], False)
      else grades_loop is_op c gs graded)"

fun categories_loop ::
  "(int \<Rightarrow> int \<Rightarrow> bool) \<Rightarrow> category list \<Rightarrow> grade list \<Rightarrow> (category \<times> int option) list
     \<Rightarrow> (category \<times> int option) list" where
  "categories_loop is_op [] grades graded = graded"
| "categories_loop is_op (c # cs) grades graded =
     (case grades_loop is_op c grades graded of
        (graded', missing) \<Rightarrow>
          categories_loop is_op cs grades
            (if missing then graded' @ [(c, None)] else graded'))"

text \<open>
  \<open>EvalView.get\<close>. The role object is the calling Homebuyer; dispatch lets no other role
  through, and a grade query by a Realtor object is refused by the query layer. The house
  query raises for an identifier the database does not take, and \<open>get_object_or_404\<close>
  lets that exception pass.
\<close>

definition EvalView_get :: "env \<Rightarrow> db \<Rightarrow> user \<Rightarrow> role \<Rightarrow> int \<Rightarrow> error + response" where
  "EvalView_get e d u r hid =
     (let couple = Couple_filter_homebuyer_user d (user_id u);
          categories = Category_filter_couple d couple
      in if \<not> db_integer e hid then Inl OverflowError
         else
         case get_object_or_404 [h \<leftarrow> House_objects d. house_id h = hid] of
           Inl err \<Rightarrow> Inl err
         | Inr house \<Rightarrow>
             (case r of
                Realtor_role _ \<Rightarrow> Inl ValueError
              | Homebuyer_role homebuyer \<Rightarrow>
                  (let grades = Grade_filter_house_homebuyer d house homebuyer;
                       graded = categories_loop (py_is e) categories grades []
                   in case EvalView_score_context (score_choices e) (score_default e) of
                        Inl err \<Rightarrow> Inl err
                      | Inr ctx \<Rightarrow> Inr (Render_houseEval couple house graded ctx))))"

text \<open>
  \<open>Category.objects.get(id=id)\<close> with the posted string: the string is converted to an
  integer first, and the query raises for an integer the database does not take.
\<close>

definition Category_get :: "env \<Rightarrow> db \<Rightarrow> string \<Rightarrow> error + category" where
  "Category_get e d ident =
     (case py_int e ident of
        None \<Rightarrow> Inl ValueError
      | Some i \<Rightarrow>
          if \<not> db_integer e i then Inl OverflowError
          else queryset_get [c \<leftarrow> Category_objects d. category_id c = i])"

text \<open>
  \<open>Grade.objects.update_or_create(homebuyer=..., category=..., house=...,
  defaults={'score': ...})\<close>: the one row of the triple gets the score and is saved under
  its primary key; with no such row a new one is inserted; several rows raise. The lookup
  comes first; the write that follows raises for a score the database does not take
  (\<open>accepted\<close>) and then leaves the table alone. The result is the row, the flag
  \<open>created\<close> and the table.
\<close>

definition grade_matches :: "int \<Rightarrow> int \<Rightarrow> int \<Rightarrow> grade \<Rightarrow> bool" where
  "grade_matches hb cat hs g \<longleftrightarrow>
     grade_homebuyer g = hb \<and> grade_category g = cat \<and> grade_house g = hs"

definition Grade_update_or_create ::
  "(int \<Rightarrow> bool) \<Rightarrow> grade list \<Rightarrow> int \<Rightarrow> int \<Rightarrow> int \<Rightarrow> int
     \<Rightarrow> error + (grade \<times> bool \<times> grade list)" where
  "Grade_update_or_create accepted gs hb cat hs score =
     (case filter (grade_matches hb cat hs) gs of
        [] \<Rightarrow>
          if \<not> accepted score then Inl OverflowError
          else
          (let g = \<lparr>grade_id = next_id (map grade_id gs), grade_homebuyer = hb,
                    grade_category = cat, grade_house = hs, grade_score = score\<rparr>
           in Inr (g, True, gs @ [g]))
      | [g] \<Rightarrow>
          if \<not> accepted score then Inl OverflowError
          else
          (let g' = g\<lparr>grade_score := score\<rparr>
           in Inr (g', False, map (\<lambda>x. if grade_id x = grade_id g then g' else x) gs))
      | _ \<Rightarrow> Inl MultipleObjectsReturned)"

text \<open>
  \<open>EvalView.post\<close>. A Grade needs a Homebuyer, so creating one for
  \<open>homebuyer.first()\<close> being \<open>None\<close> is refused by the database, unless handing it
  the score has raised before.
\<close>

definition EvalView_post :: "env \<Rightarrow> db \<Rightarrow> user \<Rightarrow> request \<Rightarrow> int \<Rightarrow> (error + response) \<times> db" where
  "EvalView_post e d u req hid =
     (if \<not> is_ajax req then (Inl PermissionDenied, d)
      else
        (let homebuyer = [h \<leftarrow> Homebuyer_objects d. homebuyer_user h = user_id u]
         in if \<not> db_integer e hid then (Inl OverflowError, d)
            else
            case get_object_or_404 [h \<leftarrow> House_objects d. house_id h = hid] of
              Inl err \<Rightarrow> (Inl err, d)
            | Inr house \<Rightarrow>
            (case POST_data req ''category'' of
              None \<Rightarrow> (Inl KeyError, d)
            | Some ident \<Rightarrow>
            (case POST_data req ''score'' of
              None \<Rightarrow> (Inl KeyError, d)
            | Some score \<Rightarrow>
            (case Category_get e d ident of
              Inl err \<Rightarrow> (Inl err, d)
            | Inr category \<Rightarrow>
            (case py_int e score of
              None \<Rightarrow> (Inl ValueError, d)
            | Some s \<Rightarrow>
            (case queryset_first homebuyer_id homebuyer of
              None \<Rightarrow> (Inl (if db_integer e s then IntegrityError else OverflowError), d)
            | Some hb \<Rightarrow>
            (case Grade_update_or_create (db_integer e) (Grade_objects d) (homebuyer_id hb)
                    (category_id category) (house_id house) s of
              Inl err \<Rightarrow> (Inl err, d)
            | Inr (g, created, gs) \<Rightarrow>
                (Inr (HttpResponse_json [(''id'', ident), (''score'', score)]),
                 d\<lparr>Grade_objects := gs\<rparr>)))))))))"

text \<open>The evaluation view behind \<open>BaseView.dispatch\<close>, for a house identifier of the URL.\<close>

definition EvalView_dispatch ::
  "env \<Rightarrow> db \<Rightarrow> http_method \<Rightarrow> request \<Rightarrow> int \<Rightarrow> (error + response) \<times> db" where
  "EvalView_dispatch e d m req hid =
     BaseView_dispatch (EvalView_permission_check e d hid)
       (\<lambda>u r. case m of
                 GET \<Rightarrow> (EvalView_get e d u r hid, d)
               | POST \<Rightarrow> EvalView_post e d u req hid)
       d req"

section \<open>HomeView\<close>

text \<open>
  The two loops that build \<open>coupleData\<close> in \<open>HomeView.get\<close> and \<open>HomeView.post\<close>:
  one triple per Couple with its Homebuyers and the flag \<open>False\<close>, then one per
  PendingCouple with its PendingHomebuyers and the flag \<open>True\<close>.
\<close>

fun couples_loop :: "db \<Rightarrow> couple list \<Rightarrow> couple_data list \<Rightarrow> couple_data list" where
  "couples_loop d [] coupleData = coupleData"
| "couples_loop d (c # cs) coupleData =
     couples_loop d cs (coupleData @ [(Inl c, Inl (Homebuyer_filter_couple d c), False)])"

fun pendingCouples_loop ::
  "db \<Rightarrow> pending_couple list \<Rightarrow> couple_data list \<Rightarrow> couple_data list" where
  "pendingCouples_loop d [] coupleData = coupleData"
| "pendingCouples_loop d (p # ps) coupleData =
     pendingCouples_loop d ps
       (coupleData @ [(Inr p, Inr (PendingHomebuyer_filter_pending_couple d p), True)])"

definition build_coupleData :: "db \<Rightarrow> realtor list \<Rightarrow> couple_data list" where
  "build_coupleData d realtor =
     pendingCouples_loop d (PendingCouple_filter_realtor d realtor)
       (couples_loop d (Couple_filter_realtor d realtor) [])"

text \<open>\<open>HomeView.get\<close>\<close>

definition HomeView_get :: "db \<Rightarrow> user \<Rightarrow> error + response" where
  "HomeView_get d u =
     (let couple = Couple_filter_homebuyer_user d (user_id u);
          realtor = Realtor_filter_user d (user_id u)
      in if couple \<noteq> [] then
           Inr (Render_homebuyerHome couple (House_filter_couple d couple))
         else if realtor \<noteq> [] then
           Inr (Render_realtorHome (build_coupleData d realtor)
                  (House_filter_couple d couple) realtor)
         else Inl Neither_a_Homebuyer_nor_a_Realtor)"

text \<open>
  \<open>transaction.atomic()\<close>: when the block raises, the database is as it was on entry and
  the exception goes on to the caller.
\<close>

definition atomic :: "(db \<Rightarrow> (error + 'a) \<times> db) \<Rightarrow> db \<Rightarrow> (error + 'a) \<times> db" where
  "atomic block d =
     (case block d of
        (Inl err, d') \<Rightarrow> (Inl err, d)
      | (Inr a, d') \<Rightarrow> (Inr a, d'))"

text \<open>\<open>PendingCouple.objects.create(realtor=...)\<close>\<close>

definition PendingCouple_create :: "db \<Rightarrow> realtor \<Rightarrow> pending_couple \<times> db" where
  "PendingCouple_create d r =
     (let p = \<lparr>pending_couple_id = next_id (map pending_couple_id (PendingCouple_objects d)),
               pending_couple_realtor = realtor_id r\<rparr>
      in (p, d\<lparr>PendingCouple_objects := PendingCouple_objects d @ [p]\<rparr>))"

text \<open>
  \<open>PendingHomebuyer.objects.create(email=..., pending_couple=...)\<close>, which the database
  may refuse.
\<close>

definition PendingHomebuyer_create ::
  "env \<Rightarrow> db \<Rightarrow> string \<Rightarrow> pending_couple \<Rightarrow> (error + pending_homebuyer) \<times> db" where
  "PendingHomebuyer_create e d email p =
     (if pending_homebuyer_accepted e (PendingHomebuyer_objects d) email then
        (let h = \<lparr>pending_homebuyer_id =
                     next_id (map pending_homebuyer_id (PendingHomebuyer_objects d)),
                   pending_homebuyer_email = email,
                   pending_homebuyer_pending_couple = pending_couple_id p\<rparr>
         in (Inr h, d\<lparr>PendingHomebuyer_objects := PendingHomebuyer_objects d @ [h]\<rparr>))
      else (Inl IntegrityError, d))"

text \<open>
  \<open>HomeView._invite_homebuyer\<close>: the row is written before the mail goes out, so a mail
  that fails leaves the row to the enclosing transaction.
\<close>

definition invite_homebuyer ::
  "env \<Rightarrow> pending_couple \<Rightarrow> string \<Rightarrow> db \<Rightarrow> (error + unit) \<times> db" where
  "invite_homebuyer e p email d =
     (case PendingHomebuyer_create e d email p of
        (Inl err, d') \<Rightarrow> (Inl err, d')
      | (Inr homebuyer, d') \<Rightarrow>
          if send_email_invite e homebuyer then (Inr (), d') else (Inl EmailError, d'))"

text \<open>\<open>request.user.realtor\<close>, the Realtor row of the user\<close>

definition user_realtor :: "db \<Rightarrow> user \<Rightarrow> error + realtor" where
  "user_realtor d u = queryset_get (Realtor_filter_user d (user_id u))"

text \<open>The body of the \<open>with transaction.atomic()\<close> block of \<open>HomeView.post\<close>.\<close>

definition invite_block :: "env \<Rightarrow> user \<Rightarrow> string \<Rightarrow> string \<Rightarrow> db \<Rightarrow> (error + unit) \<times> db" where
  "invite_block e u first_email second_email d =
     (case user_realtor d u of
        Inl err \<Rightarrow> (Inl err, d)
      | Inr r \<Rightarrow>
          (case PendingCouple_create d r of
             (pending_couple, d1) \<Rightarrow>
               (case invite_homebuyer e pending_couple first_email d1 of
                  (Inl err, d2) \<Rightarrow> (Inl err, d2)
                | (Inr _, d2) \<Rightarrow> invite_homebuyer e pending_couple second_email d2)))"

text \<open>
  \<open>HomeView.post\<close>. The homebuyer branch reads the local \<open>couples\<close>, which only the
  realtor branch assigns. The queries \<open>couples\<close>, \<open>pendingCouples\<close> and \<open>house\<close> of
  the realtor branch are lazy: they run when the loops and the template iterate them, after
  the transaction, on the database it leaves.
\<close>

definition HomeView_post :: "env \<Rightarrow> db \<Rightarrow> user \<Rightarrow> request \<Rightarrow> (error + response) \<times> db" where
  "HomeView_post e d u req =
     (let realtor = Realtor_filter_user d (user_id u);
          couple = Couple_filter_homebuyer_user d (user_id u)
      in if couple \<noteq> [] then (Inl UnboundLocalError, d)
         else if realtor \<noteq> [] then
           (case (case form_cleaned_data e (POST_data req) of
                    None \<Rightarrow> (Inr (), d)
                  | Some (first_email, second_email) \<Rightarrow>
                      atomic (invite_block e u first_email second_email) d) of
              (Inl err, d') \<Rightarrow> (Inl err, d')
            | (Inr _, d') \<Rightarrow>
                (Inr (Render_realtorHome (build_coupleData d' realtor)
                        (House_filter_couple d' couple) realtor),
                 d'))
         else (Inl Neither_a_Homebuyer_nor_a_Realtor, d))"

text \<open>The home view behind \<open>BaseView.dispatch\<close>; it keeps the default permission check.\<close>

definition HomeView_dispatch ::
  "env \<Rightarrow> db \<Rightarrow> http_method \<Rightarrow> request \<Rightarrow> (error + response) \<times> db" where
  "HomeView_dispatch e d m req =
     BaseView_dispatch BaseView_permission_check
       (\<lambda>u r. case m of
                 GET \<Rightarrow> (HomeView_get d u, d)
               | POST \<Rightarrow> HomeView_post e d u req)
       d req"

section \<open>The couple data of the realtor view, as the specification words it\<close>

text \<open>
  All real Couples of the realtor first, each with its Homebuyers and the flag \<open>False\<close>,
  then all PendingCouples, each with its PendingHomebuyers and the flag \<open>True\<close>. The loops
  of the view are compared with this list below.
\<close>

definition coupleData_spec :: "db \<Rightarrow> realtor list \<Rightarrow> couple_data list" where
  "coupleData_spec d realtor =
     map (\<lambda>c. (Inl c, Inl (Homebuyer_filter_couple d c), False)) (Couple_filter_realtor d realtor)
     @ map (\<lambda>p. (Inr p, Inr (PendingHomebuyer_filter_pending_couple d p), True))
         (PendingCouple_filter_realtor d realtor)"

section \<open>A small database to run the views on\<close>

text \<open>
  One realtor with two couples and a pending couple, one realtor who owns nothing, and one
  user who has a Realtor row and is a Homebuyer of a couple as well. Homebuyer 4 is in no
  couple. Category 300 has a key beyond the integers CPython shares. The environment reads
  \<open>is\<close> as CPython does, converts the decimal strings the examples post, has the integers
  of SQLite, takes a form with both emails as valid, and refuses a PendingHomebuyer whose
  email is already there.
\<close>

definition example_db :: db where
  "example_db =
     \<lparr>Realtor_objects =
        [\<lparr>realtor_id = 1, realtor_user = 10\<rparr>, \<lparr>realtor_id = 2, realtor_user = 11\<rparr>,
         \<lparr>realtor_id = 3, realtor_user = 12\<rparr>],
      Couple_objects =
        [\<lparr>couple_id = 1, couple_realtor = 1\<rparr>, \<lparr>couple_id = 2, couple_realtor = 1\<rparr>],
      Homebuyer_objects =
        [\<lparr>homebuyer_id = 1, homebuyer_user = 20, homebuyer_couple = Some 1\<rparr>,
         \<lparr>homebuyer_id = 2, homebuyer_user = 21, homebuyer_couple = Some 1\<rparr>,
         \<lparr>homebuyer_id = 3, homebuyer_user = 22, homebuyer_couple = Some 2\<rparr>,
         \<lparr>homebuyer_id = 4, homebuyer_user = 23, homebuyer_couple = None\<rparr>,
         \<lparr>homebuyer_id = 5, homebuyer_user = 12, homebuyer_couple = Some 2\<rparr>],
      House_objects =
        [\<lparr>house_id = 1, house_couple = 1\<rparr>, \<lparr>house_id = 2, house_couple = 2\<rparr>],
      Category_objects =
        [\<lparr>category_id = 1, category_couple = 1\<rparr>, \<lparr>category_id = 2, category_couple = 1\<rparr>,
         \<lparr>category_id = 300, category_couple = 1\<rparr>, \<lparr>category_id = 4, category_couple = 2\<rparr>],
      Grade_objects =
        [\<lparr>grade_id = 1, grade_homebuyer = 1, grade_category = 2, grade_house = 1,
          grade_score = 4\<rparr>,
         \<lparr>grade_id = 2, grade_homebuyer = 1, grade_category = 300, grade_house = 1,
          grade_score = 5\<rparr>,
         \<lparr>grade_id = 3, grade_homebuyer = 2, grade_category = 1, grade_house = 1,
          grade_score = 2\<rparr>],
      PendingCouple_objects = [\<lparr>pending_couple_id = 1, pending_couple_realtor = 1\<rparr>],
      PendingHomebuyer_objects =
        [\<lparr>pending_homebuyer_id = 1, pending_homebuyer_email = ''ann@example.org'',
          pending_homebuyer_pending_couple = 1\<rparr>,
         \<lparr>pending_homebuyer_id = 2, pending_homebuyer_email = ''bob@example.org'',
          pending_homebuyer_pending_couple = 1\<rparr>]\<rparr>"

definition example_env :: env where
  "example_env =
     \<lparr>py_is = cpython_is,
      py_int = map_of [(''1'', 1), (''2'', 2), (''3'', 3), (''4'', 4), (''5'', 5), (''300'', 300)],
      db_integer = sqlite_integer,
      score_choices = [(1, ''Poor''), (2, ''Below Average''), (3, ''Average''),
                       (4, ''Above Average''), (5, ''Excellent'')],
      score_default = 3,
      form_cleaned_data =
        (\<lambda>p. case p ''first_email'' of
                None \<Rightarrow> None
              | Some a \<Rightarrow> (case p ''second_email'' of None \<Rightarrow> None | Some b \<Rightarrow> Some (a, b))),
      pending_homebuyer_accepted = (\<lambda>rows email. email \<notin> set (map pending_homebuyer_email rows)),
      send_email_invite = (\<lambda>h. True)\<rparr>"

definition example_user :: "int \<Rightarrow> role \<Rightarrow> user" where
  "example_user uid r = \<lparr>user_id = uid, role_object = Some r\<rparr>"

definition example_request :: "user \<Rightarrow> bool \<Rightarrow> (string \<times> string) list \<Rightarrow> request" where
  "example_request u ajax posted = \<lparr>req_user = Some u, is_ajax = ajax, POST_data = map_of posted\<rparr>"

definition example_homebuyer :: homebuyer where
  "example_homebuyer = \<lparr>homebuyer_id = 1, homebuyer_user = 20, homebuyer_couple = Some 1\<rparr>"

definition example_realtor :: realtor where
  "example_realtor = \<lparr>realtor_id = 2, realtor_user = 11\<rparr>"

section \<open>Unfolding the definitions on concrete data\<close>

lemmas example_defs =
  example_db_def example_env_def example_user_def example_request_def example_homebuyer_def
  example_realtor_def

lemmas view_defs =
  EvalView_dispatch_def BaseView_dispatch_def EvalView_permission_check_def
  ALL_TYPES_ALLOWED_def EvalView_get_def EvalView_post_def get_object_or_404_def
  Category_get_def Grade_update_or_create_def grade_matches_def next_id_def
  Couple_filter_homebuyer_user_def Category_filter_couple_def Grade_filter_house_homebuyer_def
  EvalView_score_context_def py_dict_def dict_getitem_def cpython_is_def sqlite_integer_def
  HomeView_dispatch_def BaseView_permission_check_def HomeView_get_def HomeView_post_def
  Realtor_filter_user_def House_filter_couple_def build_coupleData_def
  Couple_filter_realtor_def PendingCouple_filter_realtor_def Homebuyer_filter_couple_def
  PendingHomebuyer_filter_pending_couple_def atomic_def invite_block_def user_realtor_def
  PendingCouple_create_def invite_homebuyer_def PendingHomebuyer_create_def

section \<open>Auxiliary facts\<close>

subsection \<open>Dispatch\<close>

lemma role_type_allowed: "role_type r \<in> set ALL_TYPES_ALLOWED"
  by (cases r) (simp_all add: ALL_TYPES_ALLOWED_def)

lemma HomeView_dispatch_authenticated:
  "req_user req = Some u \<Longrightarrow> role_object u = Some r \<Longrightarrow>
   HomeView_dispatch e d m req =
     (case m of GET \<Rightarrow> (HomeView_get d u, d) | POST \<Rightarrow> HomeView_post e d u req)"
  by (simp add: HomeView_dispatch_def BaseView_dispatch_def BaseView_permission_check_def
      role_type_allowed)

lemma get_object_or_404_Nil: "get_object_or_404 [] = Inl Http404"
  by (simp add: get_object_or_404_def)

subsection \<open>The loops are maps\<close>

lemma grades_loop_eq:
  "grades_loop is_op c gs acc =
     (case find (\<lambda>g. is_op (grade_category g) (category_id c)) gs of
        None \<Rightarrow> (acc, True)
      | Some g \<Rightarrow> (acc @ [(c, Some (grade_score g))], False))"
  by (induction gs) simp_all

lemma categories_loop_eq:
  "categories_loop is_op cs gs acc =
     acc @ map (\<lambda>c. (c, map_option grade_score
                           (find (\<lambda>g. is_op (grade_category g) (category_id c)) gs))) cs"
  by (induction cs arbitrary: acc) (simp_all add: grades_loop_eq split: option.splits)

lemma couples_loop_eq:
  "couples_loop d cs acc = acc @ map (\<lambda>c. (Inl c, Inl (Homebuyer_filter_couple d c), False)) cs"
  by (induction cs arbitrary: acc) simp_all

lemma pendingCouples_loop_eq:
  "pendingCouples_loop d ps acc =
     acc @ map (\<lambda>p. (Inr p, Inr (PendingHomebuyer_filter_pending_couple d p), True)) ps"
  by (induction ps arbitrary: acc) simp_all

lemma build_coupleData_eq: "build_coupleData d realtor = coupleData_spec d realtor"
  by (simp add: build_coupleData_def coupleData_spec_def couples_loop_eq pendingCouples_loop_eq)

lemma House_filter_couple_Nil: "House_filter_couple d [] = []"
  by (simp add: House_filter_couple_def)

subsection \<open>The dictionary of the score choices\<close>

lemma map_of_dict_setitem: "map_of (dict_setitem k v dct) = (map_of dct)(k \<mapsto> v)"
  by (induction dct) auto

lemma map_of_foldl_setitem:
  "map_of (foldl (\<lambda>dct (k, v). dict_setitem k v dct) acc pairs) = map_of acc ++ map_of (rev pairs)"
proof (induction pairs arbitrary: acc)
  case Nil
  then show ?case by simp
next
  case (Cons p ps)
  obtain k v where p: "p = (k, v)" by (cases p)
  have "map_of (dict_setitem k v acc) ++ map_of (rev ps)
          = map_of acc ++ (map_of (rev ps) ++ [k \<mapsto> v] ++ map_of (rev ps))"
    by (simp add: map_of_dict_setitem fun_eq_iff map_add_def split: option.splits)
  then show ?case using Cons.IH [of "dict_setitem k v acc"] p
    by (simp add: fun_eq_iff map_add_def split: option.splits)
qed

lemma map_of_py_dict: "map_of (py_dict pairs) = map_of (rev pairs)"
  by (simp add: py_dict_def map_of_foldl_setitem)

lemma keys_py_dict: "fst ` set (py_dict pairs) = fst ` set pairs"
proof -
  have "fst ` set (py_dict pairs) = dom (map_of (py_dict pairs))"
    by (simp add: dom_map_of_conv_image_fst)
  also have "\<dots> = dom (map_of (rev pairs))" by (simp add: map_of_py_dict)
  also have "\<dots> = fst ` set pairs" by (simp add: dom_map_of_conv_image_fst)
  finally show ?thesis .
qed

lemma py_min_eq: "xs \<noteq> [] \<Longrightarrow> py_min xs = Inr (Min (set xs))"
  by (cases xs) (simp_all add: Min.set_eq_fold [symmetric])

lemma py_max_eq: "xs \<noteq> [] \<Longrightarrow> py_max xs = Inr (Max (set xs))"
  by (cases xs) (simp_all add: Max.set_eq_fold [symmetric])

lemma dict_getitem_key:
  assumes "k \<in> fst ` set pairs"
  shows "\<exists>v. dict_getitem (py_dict pairs) k = Inr v \<and> map_of (rev pairs) k = Some v
             \<and> (k, v) \<in> set pairs"
proof -
  from assms have "k \<in> dom (map_of (rev pairs))"
    by (simp add: dom_map_of_conv_image_fst)
  then obtain v where v: "map_of (rev pairs) k = Some v" by blast
  then have "(k, v) \<in> set pairs" using map_of_SomeD by fastforce
  with v show ?thesis by (simp add: dict_getitem_def map_of_py_dict)
qed

lemma score_context_ok:
  assumes "choices \<noteq> []"
  shows "\<exists>ctx. EvalView_score_context choices dflt = Inr ctx
      \<and> min_score ctx = Min (fst ` set choices)
      \<and> max_score ctx = Max (fst ` set choices)
      \<and> map_of (rev choices) (min_score ctx) = Some (min_choice ctx)
      \<and> map_of (rev choices) (max_score ctx) = Some (max_choice ctx)
      \<and> (min_score ctx, min_choice ctx) \<in> set choices
      \<and> (max_score ctx, max_choice ctx) \<in> set choices
      \<and> default_score ctx = dflt"
proof -
  let ?keys = "map fst (py_dict choices)"
  have set_keys: "set ?keys = fst ` set choices" by (simp add: keys_py_dict)
  with assms have ne: "?keys \<noteq> []" by auto
  have fin: "finite (fst ` set choices)" "fst ` set choices \<noteq> {}" using assms by auto
  have mn: "py_min ?keys = Inr (Min (fst ` set choices))"
    using py_min_eq [OF ne] set_keys by simp
  have mx: "py_max ?keys = Inr (Max (fst ` set choices))"
    using py_max_eq [OF ne] set_keys by simp
  have "Min (fst ` set choices) \<in> fst ` set choices" using fin by (rule Min_in)
  from dict_getitem_key [OF this] obtain a where
    a: "dict_getitem (py_dict choices) (Min (fst ` set choices)) = Inr a"
       "map_of (rev choices) (Min (fst ` set choices)) = Some a"
       "(Min (fst ` set choices), a) \<in> set choices" by blast
  have "Max (fst ` set choices) \<in> fst ` set choices" using fin by (rule Max_in)
  from dict_getitem_key [OF this] obtain b where
    b: "dict_getitem (py_dict choices) (Max (fst ` set choices)) = Inr b"
       "map_of (rev choices) (Max (fst ` set choices)) = Some b"
       "(Max (fst ` set choices), b) \<in> set choices" by blast
  show ?thesis
    using mn mx a b by (simp add: EvalView_score_context_def Let_def)
qed

subsection \<open>Fresh keys and the upsert\<close>

lemma le_fold_max: "x \<in> set ids \<Longrightarrow> x \<le> fold max ids (m::int)"
proof -
  assume "x \<in> set ids"
  then have "x \<le> Max (set (m # ids))" by simp
  then show ?thesis by (simp only: Max.set_eq_fold)
qed

lemma next_id_fresh: "next_id ids \<notin> set ids"
  using le_fold_max [of "next_id ids" ids 0] by (auto simp: next_id_def)

lemma filter_singleton_mem: "filter P xs = [a] \<Longrightarrow> a \<in> set xs \<and> P a"
proof -
  assume "filter P xs = [a]"
  then have "a \<in> set (filter P xs)" by simp
  then show ?thesis by simp
qed

lemma update_or_create_accepted:
  "Grade_update_or_create accepted gs hb cat hs s = Inr x \<Longrightarrow> accepted s"
  by (cases "filter (grade_matches hb cat hs) gs" rule: queryset_get.cases)
     (auto simp: Grade_update_or_create_def split: if_splits)

lemma update_or_create_created:
  assumes "filter (grade_matches hb cat hs) gs = []" and "accepted s"
  shows "Grade_update_or_create accepted gs hb cat hs s =
           Inr (\<lparr>grade_id = next_id (map grade_id gs), grade_homebuyer = hb,
                 grade_category = cat, grade_house = hs, grade_score = s\<rparr>, True,
                gs @ [\<lparr>grade_id = next_id (map grade_id gs), grade_homebuyer = hb,
                       grade_category = cat, grade_house = hs, grade_score = s\<rparr>])"
  using assms by (simp add: Grade_update_or_create_def Let_def)

lemma update_or_create_updated:
  assumes "filter (grade_matches hb cat hs) gs = [g]" and "accepted s"
  shows "Grade_update_or_create accepted gs hb cat hs s =
           Inr (g\<lparr>grade_score := s\<rparr>, False,
                map (\<lambda>x. if grade_id x = grade_id g then g\<lparr>grade_score := s\<rparr> else x) gs)"
  using assms by (simp add: Grade_update_or_create_def Let_def)

lemma update_or_create_result:
  assumes ok: "Grade_update_or_create accepted gs hb cat hs s = Inr (g, created, gs')"
      and pk: "distinct (map grade_id gs)"
  shows "filter (grade_matches hb cat hs) gs' = [g]"
    and "grade_score g = s"
    and "distinct (map grade_id gs')"
    and "created \<longleftrightarrow> filter (grade_matches hb cat hs) gs = []"
    and "length gs' = (if created then length gs + 1 else length gs)"
    and "filter (\<lambda>x. \<not> grade_matches hb cat hs x) gs' = filter (\<lambda>x. \<not> grade_matches hb cat hs x) gs"
proof -
  let ?P = "grade_matches hb cat hs"
  note acc = update_or_create_accepted [OF ok]
  consider (new) "filter ?P gs = []" | (one) g0 where "filter ?P gs = [g0]"
    using ok by (cases "filter ?P gs" rule: queryset_get.cases)
                (auto simp: Grade_update_or_create_def)
  then have "filter ?P gs' = [g] \<and> grade_score g = s \<and> distinct (map grade_id gs')
     \<and> (created \<longleftrightarrow> filter ?P gs = [])
     \<and> length gs' = (if created then length gs + 1 else length gs)
     \<and> filter (\<lambda>x. \<not> ?P x) gs' = filter (\<lambda>x. \<not> ?P x) gs"
  proof cases
    case new
    from ok update_or_create_created [where accepted = accepted and s = s, OF new acc]
    have g: "g = \<lparr>grade_id = next_id (map grade_id gs), grade_homebuyer = hb,
                 grade_category = cat, grade_house = hs, grade_score = s\<rparr>"
      and c: "created" and gs': "gs' = gs @ [g]" by auto
    have "?P g" by (simp add: g grade_matches_def)
    moreover have "grade_id g \<notin> set (map grade_id gs)"
      using next_id_fresh [of "map grade_id gs"] by (simp add: g)
    ultimately show ?thesis using new pk c gs' by (simp add: g)
  next
    case (one g0)
    let ?f = "\<lambda>x. if grade_id x = grade_id g0 then g0\<lparr>grade_score := s\<rparr> else x"
    from ok update_or_create_updated [where accepted = accepted and s = s, OF one acc]
    have g: "g = g0\<lparr>grade_score := s\<rparr>" and c: "\<not> created" and gs': "gs' = map ?f gs"
      by auto
    from filter_singleton_mem [OF one] have g0: "g0 \<in> set gs" "?P g0" by simp_all
    have inj: "inj_on grade_id (set gs)" using pk by (simp add: distinct_map)
    have same: "\<And>x. x \<in> set gs \<Longrightarrow> (grade_id x = grade_id g0) = (x = g0)"
      using inj g0(1) by (auto dest: inj_onD)
    have Pf: "\<And>x. x \<in> set gs \<Longrightarrow> ?P (?f x) = ?P x"
      using g0(2) same by (auto simp: grade_matches_def)
    have "filter ?P (map ?f gs) = map ?f (filter (?P \<circ> ?f) gs)" by (simp add: filter_map)
    also have "filter (?P \<circ> ?f) gs = filter ?P gs"
      by (rule filter_cong) (simp_all add: Pf)
    finally have 1: "filter ?P gs' = [g]" by (simp add: one gs' g)
    have "\<And>x. grade_id (?f x) = grade_id x" by simp
    then have "map (\<lambda>x. grade_id (?f x)) gs = map grade_id gs" by (simp only:)
    then have ids: "map grade_id gs' = map grade_id gs" by (simp only: gs' map_map comp_def)
    have 3: "distinct (map grade_id gs')" using pk by (simp only: ids)
    have 4: "length gs' = length gs" by (simp add: gs')
    have "filter (\<lambda>x. \<not> ?P x) (map ?f gs) = map ?f (filter ((\<lambda>x. \<not> ?P x) \<circ> ?f) gs)"
      by (simp add: filter_map)
    also have "filter ((\<lambda>x. \<not> ?P x) \<circ> ?f) gs = filter (\<lambda>x. \<not> ?P x) gs"
      by (rule filter_cong) (simp_all add: Pf)
    also have "map ?f (filter (\<lambda>x. \<not> ?P x) gs) = filter (\<lambda>x. \<not> ?P x) gs"
    proof -
      have "\<And>x. x \<in> set (filter (\<lambda>x. \<not> ?P x) gs) \<Longrightarrow> ?f x = x"
        using same g0(2) by auto
      then show ?thesis by (intro map_idI) simp
    qed
    finally have 2: "filter (\<lambda>x. \<not> ?P x) gs' = filter (\<lambda>x. \<not> ?P x) gs" by (simp add: gs')
    show ?thesis using 1 2 3 4 c one by (simp add: g)
  qed
  then show "filter (grade_matches hb cat hs) gs' = [g]"
    and "grade_score g = s"
    and "distinct (map grade_id gs')"
    and "created \<longleftrightarrow> filter (grade_matches hb cat hs) gs = []"
    and "length gs' = (if created then length gs + 1 else length gs)"
    and "filter (\<lambda>x. \<not> grade_matches hb cat hs x) gs' = filter (\<lambda>x. \<not> grade_matches hb cat hs x) gs"
    by simp_all
qed

text \<open>
  What a successful \<open>EvalView.post\<close> did, read off its definition.
\<close>

lemma EvalView_post_success:
  assumes "EvalView_post e d u req hid = (Inr resp, d')"
  shows "\<exists>house ident score category s hb g created gs.
           is_ajax req
         \<and> get_object_or_404 [h \<leftarrow> House_objects d. house_id h = hid] = Inr house
         \<and> POST_data req ''category'' = Some ident
         \<and> POST_data req ''score'' = Some score
         \<and> Category_get e d ident = Inr category
         \<and> py_int e score = Some s
         \<and> queryset_first homebuyer_id [h \<leftarrow> Homebuyer_objects d. homebuyer_user h = user_id u]
              = Some hb
         \<and> Grade_update_or_create (db_integer e) (Grade_objects d) (homebuyer_id hb)
              (category_id category) (house_id house) s = Inr (g, created, gs)
         \<and> resp = HttpResponse_json [(''id'', ident), (''score'', score)]
         \<and> d' = d\<lparr>Grade_objects := gs\<rparr>"
  using assms
  by (auto simp: EvalView_post_def Let_def split: if_splits sum.splits option.splits prod.splits)

subsection \<open>The invitation block\<close>

text \<open>
  The block on its own leaves the rows it wrote behind when a later step raises; the
  rollback is the work of \<open>atomic\<close>.
\<close>

lemma invite_block_eq:
  assumes "Realtor_filter_user d (user_id u) = [r]"
  shows "invite_block e u first_email second_email d =
    (let p = \<lparr>pending_couple_id = next_id (map pending_couple_id (PendingCouple_objects d)),
               pending_couple_realtor = realtor_id r\<rparr>;
         h1 = \<lparr>pending_homebuyer_id =
                  next_id (map pending_homebuyer_id (PendingHomebuyer_objects d)),
                pending_homebuyer_email = first_email,
                pending_homebuyer_pending_couple = pending_couple_id p\<rparr>;
         h2 = \<lparr>pending_homebuyer_id =
                  next_id (map pending_homebuyer_id (PendingHomebuyer_objects d @ [h1])),
                pending_homebuyer_email = second_email,
                pending_homebuyer_pending_couple = pending_couple_id p\<rparr>;
         d1 = d\<lparr>PendingCouple_objects := PendingCouple_objects d @ [p]\<rparr>;
         d2 = d1\<lparr>PendingHomebuyer_objects := PendingHomebuyer_objects d @ [h1]\<rparr>;
         d3 = d1\<lparr>PendingHomebuyer_objects := PendingHomebuyer_objects d @ [h1, h2]\<rparr>
     in if \<not> pending_homebuyer_accepted e (PendingHomebuyer_objects d) first_email
          then (Inl IntegrityError, d1)
        else if \<not> send_email_invite e h1 then (Inl EmailError, d2)
        else if \<not> pending_homebuyer_accepted e (PendingHomebuyer_objects d @ [h1]) second_email
          then (Inl IntegrityError, d2)
        else if \<not> send_email_invite e h2 then (Inl EmailError, d3)
        else (Inr (), d3))"
  using assms
  by (simp add: invite_block_def user_realtor_def PendingCouple_create_def invite_homebuyer_def
      PendingHomebuyer_create_def Let_def)

subsection \<open>Empty queries\<close>

lemma Couple_filter_homebuyer_user_Nil_iff:
  "Couple_filter_homebuyer_user d uid = [] \<longleftrightarrow>
     (\<forall>c \<in> set (Couple_objects d). \<forall>h \<in> set (Homebuyer_objects d).
        homebuyer_user h = uid \<longrightarrow> homebuyer_couple h \<noteq> Some (couple_id c))"
  by (auto simp: Couple_filter_homebuyer_user_def filter_empty_conv list_ex_iff)

lemma Realtor_filter_user_Nil_iff:
  "Realtor_filter_user d uid = [] \<longleftrightarrow> (\<forall>x \<in> set (Realtor_objects d). realtor_user x \<noteq> uid)"
  by (auto simp: Realtor_filter_user_def filter_empty_conv)

section \<open>The evaluation read path\<close>

text \<open>
  The read path returns one pair per category of the caller's couple, in the order of the
  categories; the score of a pair is the score of the first grade that the comparison
  \<open>is\<close> accepts for the category. Where \<open>is\<close> agrees with equality this is the grade
  of the category, if there is one.
\<close>

lemma EvalView_get_graded:
  assumes "EvalView_get e d u (Homebuyer_role hb) hid
             = Inr (Render_houseEval couple house graded ctx)"
  shows "graded =
           map (\<lambda>c. (c, map_option grade_score
                          (find (\<lambda>g. py_is e (grade_category g) (category_id c))
                             (Grade_filter_house_homebuyer d house hb))))
             (Category_filter_couple d (Couple_filter_homebuyer_user d (user_id u)))"
  using assms
  by (auto simp: EvalView_get_def Let_def categories_loop_eq split: sum.splits if_splits)

lemma EvalView_get_one_pair_per_category:
  assumes "EvalView_get e d u (Homebuyer_role hb) hid
             = Inr (Render_houseEval couple house graded ctx)"
  shows "map fst graded = Category_filter_couple d (Couple_filter_homebuyer_user d (user_id u))"
  by (simp add: EvalView_get_graded [OF assms] comp_def)

lemma EvalView_get_scores_when_is_is_equality:
  assumes "EvalView_get e d u (Homebuyer_role hb) hid
             = Inr (Render_houseEval couple house graded ctx)"
      and "py_is e = (=)"
      and "(c, s) \<in> set graded"
  shows "(s = None \<longleftrightarrow>
            (\<forall>g \<in> set (Grade_filter_house_homebuyer d house hb). grade_category g \<noteq> category_id c))
       \<and> (\<forall>v. s = Some v \<longrightarrow>
            (\<exists>g \<in> set (Grade_filter_house_homebuyer d house hb).
               grade_category g = category_id c \<and> grade_score g = v))"
proof -
  let ?gs = "Grade_filter_house_homebuyer d house hb"
  from assms(3) EvalView_get_graded [OF assms(1)] assms(2)
  have s: "s = map_option grade_score (find (\<lambda>g. grade_category g = category_id c) ?gs)"
    by auto
  show ?thesis
  proof (cases "find (\<lambda>g. grade_category g = category_id c) ?gs")
    case None
    then have "s = None" using s by simp
    moreover from None
    have "\<forall>g \<in> set ?gs. grade_category g \<noteq> category_id c"
      by (auto simp: find_None_iff)
    ultimately show ?thesis by simp
  next
    case (Some g)
    then have "g \<in> set ?gs \<and> grade_category g = category_id c"
      by (auto simp: find_Some_iff)
    then show ?thesis using s Some by auto
  qed
qed

text \<open>
  Claim C1: for every house and every homebuyer the read path returns one pair per category
  of the caller's couple, in category order, carrying the score of the matching grade when
  one exists and \<open>None\<close> otherwise. The view compares the two category keys with
  \<open>is\<close>, the identity of the integer objects, where it means \<open>==\<close>. Under CPython the
  homebuyer of the example, who graded the categories 2 and 300 of house 1, is shown the
  score of category 2 and is told that category 300 is ungraded.
\<close>

theorem C1_large_category_id_reads_ungraded:
  "\<lparr>grade_id = 2, grade_homebuyer = 1, grade_category = 300, grade_house = 1, grade_score = 5\<rparr>
     \<in> set (Grade_objects example_db)
   \<and> EvalView_get example_env example_db (example_user 20 (Homebuyer_role example_homebuyer))
       (Homebuyer_role example_homebuyer) 1
     = Inr (Render_houseEval [\<lparr>couple_id = 1, couple_realtor = 1\<rparr>]
              \<lparr>house_id = 1, house_couple = 1\<rparr>
              [(\<lparr>category_id = 1, category_couple = 1\<rparr>, None),
               (\<lparr>category_id = 2, category_couple = 1\<rparr>, Some 4),
               (\<lparr>category_id = 300, category_couple = 1\<rparr>, None)]
              \<lparr>min_score = 1, max_score = 5, min_choice = ''Poor'', max_choice = ''Excellent'',
               default_score = 3,
               js_scores = [(1, ''Poor''), (2, ''Below Average''), (3, ''Average''),
                            (4, ''Above Average''), (5, ''Excellent'')]\<rparr>)"
  by (simp add: example_defs view_defs Let_def)

section \<open>The evaluation write path\<close>

text \<open>
  Claim C2: two submissions on the write path for the same homebuyer, category and house
  leave exactly one Grade row of the triple, and its score is the one submitted last. The
  first submission leaves one row of the triple with the first score and adds a row only
  when the triple had none; the second rewrites the score of that very row and adds none;
  the rows of other triples stay as they were. The primary keys of the Grade table are
  distinct, as the database keeps them.
\<close>

theorem C2_upsert_twice:
  assumes first: "EvalView_post e d u req1 hid = (Inr resp1, d1)"
      and second: "EvalView_post e d1 u req2 hid = (Inr resp2, d2)"
      and same_category: "POST_data req2 ''category'' = POST_data req1 ''category''"
      and pk: "distinct (map grade_id (Grade_objects d))"
  shows "\<exists>hb ident category house score2 s2 g.
           queryset_first homebuyer_id [h \<leftarrow> Homebuyer_objects d. homebuyer_user h = user_id u]
             = Some hb
         \<and> POST_data req1 ''category'' = Some ident
         \<and> Category_get e d ident = Inr category
         \<and> get_object_or_404 [h \<leftarrow> House_objects d. house_id h = hid] = Inr house
         \<and> POST_data req2 ''score'' = Some score2
         \<and> py_int e score2 = Some s2
         \<and> filter (grade_matches (homebuyer_id hb) (category_id category) (house_id house))
              (Grade_objects d2) = [g]
         \<and> grade_score g = s2
         \<and> (\<exists>score1 s1 g1.
                POST_data req1 ''score'' = Some score1 \<and> py_int e score1 = Some s1
              \<and> filter (grade_matches (homebuyer_id hb) (category_id category) (house_id house))
                   (Grade_objects d1) = [g1]
              \<and> grade_score g1 = s1
              \<and> g = g1\<lparr>grade_score := s2\<rparr>)
         \<and> length (Grade_objects d2) = length (Grade_objects d1)
         \<and> length (Grade_objects d1) =
              (if filter (grade_matches (homebuyer_id hb) (category_id category) (house_id house))
                    (Grade_objects d) = []
               then length (Grade_objects d) + 1 else length (Grade_objects d))
         \<and> filter (\<lambda>x. \<not> grade_matches (homebuyer_id hb) (category_id category) (house_id house) x)
              (Grade_objects d2)
             = filter (\<lambda>x. \<not> grade_matches (homebuyer_id hb) (category_id category) (house_id house) x)
                 (Grade_objects d)"
proof -
  from EvalView_post_success [OF first] obtain house ident score1 category s1 hb g1 created1 gs1
    where a: "get_object_or_404 [h \<leftarrow> House_objects d. house_id h = hid] = Inr house"
      "POST_data req1 ''category'' = Some ident"
      "Category_get e d ident = Inr category"
      "queryset_first homebuyer_id [h \<leftarrow> Homebuyer_objects d. homebuyer_user h = user_id u]
         = Some hb"
      "Grade_update_or_create (db_integer e) (Grade_objects d) (homebuyer_id hb)
         (category_id category) (house_id house) s1 = Inr (g1, created1, gs1)"
      "d1 = d\<lparr>Grade_objects := gs1\<rparr>"
      "POST_data req1 ''score'' = Some score1"
      "py_int e score1 = Some s1"
    by blast
  have d1: "House_objects d1 = House_objects d" "Homebuyer_objects d1 = Homebuyer_objects d"
    "Category_objects d1 = Category_objects d" "Grade_objects d1 = gs1"
    by (simp_all add: a(6))
  have cat1: "\<And>i. Category_get e d1 i = Category_get e d i"
    by (simp add: Category_get_def d1 split: option.splits)
  from EvalView_post_success [OF second] obtain house' ident' score2 category' s2 hb' g2 created2 gs2
    where b: "get_object_or_404 [h \<leftarrow> House_objects d1. house_id h = hid] = Inr house'"
      "POST_data req2 ''category'' = Some ident'"
      "POST_data req2 ''score'' = Some score2"
      "Category_get e d1 ident' = Inr category'"
      "py_int e score2 = Some s2"
      "queryset_first homebuyer_id [h \<leftarrow> Homebuyer_objects d1. homebuyer_user h = user_id u]
         = Some hb'"
      "Grade_update_or_create (db_integer e) (Grade_objects d1) (homebuyer_id hb')
         (category_id category') (house_id house') s2 = Inr (g2, created2, gs2)"
      "d2 = d1\<lparr>Grade_objects := gs2\<rparr>"
    by blast
  have eqs: "house' = house" "ident' = ident" "category' = category" "hb' = hb"
    using a(1-4) b(1,2,4,6) same_category by (simp_all add: d1 cat1)
  let ?P = "grade_matches (homebuyer_id hb) (category_id category) (house_id house)"
  note r1 = update_or_create_result [OF a(5) pk]
  from b(7) have b7: "Grade_update_or_create (db_integer e) gs1 (homebuyer_id hb)
         (category_id category) (house_id house) s2 = Inr (g2, created2, gs2)"
    by (simp add: eqs d1)
  note r2 = update_or_create_result [OF b7 r1(3)]
  have nc: "\<not> created2" using r2(4) r1(1) by simp
  have same_row: "g2 = g1\<lparr>grade_score := s2\<rparr>"
    using b7 update_or_create_updated [where accepted = "db_integer e" and s = s2,
        OF r1(1) update_or_create_accepted [OF b7]]
    by simp
  have after_first: "\<exists>score1 s1 g1.
      POST_data req1 ''score'' = Some score1 \<and> py_int e score1 = Some s1
      \<and> filter ?P (Grade_objects d1) = [g1] \<and> grade_score g1 = s1
      \<and> g2 = g1\<lparr>grade_score := s2\<rparr>"
    using a(7,8) r1(1,2) same_row by (auto simp: d1)
  have "filter ?P (Grade_objects d2) = [g2]" using r2(1) by (simp add: b(8))
  moreover have "grade_score g2 = s2" by (rule r2(2))
  moreover have "length (Grade_objects d2) = length (Grade_objects d1)"
    using r2(5) nc by (simp add: b(8) d1)
  moreover have "length (Grade_objects d1) =
      (if filter ?P (Grade_objects d) = [] then length (Grade_objects d) + 1
       else length (Grade_objects d))"
    using r1(5) r1(4) by (simp add: d1)
  moreover have "filter (\<lambda>x. \<not> ?P x) (Grade_objects d2) = filter (\<lambda>x. \<not> ?P x) (Grade_objects d)"
    using r1(6) r2(6) by (simp add: b(8))
  ultimately show ?thesis using a(1-4) b(3,5) after_first by blast
qed

text \<open>
  On the example database the homebuyer grades category 1 of house 1 with 5 and then with
  3: the table gains one row, and it holds 3.
\<close>

theorem C2_upsert_twice_witness:
  "\<exists>d1 d2.
      EvalView_post example_env example_db (example_user 20 (Homebuyer_role example_homebuyer))
        (example_request (example_user 20 (Homebuyer_role example_homebuyer)) True
           [(''category'', ''1''), (''score'', ''5'')]) 1
        = (Inr (HttpResponse_json [(''id'', ''1''), (''score'', ''5'')]), d1)
    \<and> EvalView_post example_env d1 (example_user 20 (Homebuyer_role example_homebuyer))
        (example_request (example_user 20 (Homebuyer_role example_homebuyer)) True
           [(''category'', ''1''), (''score'', ''3'')]) 1
        = (Inr (HttpResponse_json [(''id'', ''1''), (''score'', ''3'')]), d2)
    \<and> filter (grade_matches 1 1 1) (Grade_objects example_db) = []
    \<and> filter (grade_matches 1 1 1) (Grade_objects d2)
        = [\<lparr>grade_id = 4, grade_homebuyer = 1, grade_category = 1, grade_house = 1,
            grade_score = 3\<rparr>]
    \<and> length (Grade_objects d2) = length (Grade_objects example_db) + 1"
proof -
  let ?u = "example_user 20 (Homebuyer_role example_homebuyer)"
  let ?req1 = "example_request ?u True [(''category'', ''1''), (''score'', ''5'')]"
  let ?req2 = "example_request ?u True [(''category'', ''1''), (''score'', ''3'')]"
  let ?g = "\<lparr>grade_id = 4, grade_homebuyer = 1, grade_category = 1, grade_house = 1,
             grade_score = 5\<rparr>"
  let ?d1 = "example_db\<lparr>Grade_objects := Grade_objects example_db @ [?g]\<rparr>"
  let ?d2 = "example_db\<lparr>Grade_objects := Grade_objects example_db @ [?g\<lparr>grade_score := 3\<rparr>]\<rparr>"
  have first: "EvalView_post example_env example_db ?u ?req1 1
                 = (Inr (HttpResponse_json [(''id'', ''1''), (''score'', ''5'')]), ?d1)"
    by (simp add: example_defs view_defs Let_def)
  have second: "EvalView_post example_env ?d1 ?u ?req2 1
                 = (Inr (HttpResponse_json [(''id'', ''1''), (''score'', ''3'')]), ?d2)"
    by (simp add: example_defs view_defs Let_def)
  have same: "POST_data ?req2 ''category'' = POST_data ?req1 ''category''"
    by (simp add: example_request_def)
  have pk: "distinct (map grade_id (Grade_objects example_db))"
    by (simp add: example_db_def)
  have before: "filter (grade_matches 1 1 1) (Grade_objects example_db) = []"
    by (simp add: example_db_def grade_matches_def)
  from C2_upsert_twice [OF first second same pk]
  obtain hb ident category house score2 s2 g where
    r: "queryset_first homebuyer_id
          [h \<leftarrow> Homebuyer_objects example_db. homebuyer_user h = user_id ?u] = Some hb"
       "POST_data ?req1 ''category'' = Some ident"
       "Category_get example_env example_db ident = Inr category"
       "get_object_or_404 [h \<leftarrow> House_objects example_db. house_id h = 1] = Inr house"
       "POST_data ?req2 ''score'' = Some score2"
       "py_int example_env score2 = Some s2"
       "filter (grade_matches (homebuyer_id hb) (category_id category) (house_id house))
              (Grade_objects ?d2) = [g]"
       "grade_score g = s2"
       "length (Grade_objects ?d2) = length (Grade_objects ?d1)"
    by blast
  from r(1) have hb: "homebuyer_id hb = 1" by (auto simp: example_defs)
  from r(2,3) have cat: "category_id category = 1"
    by (auto simp: example_defs Category_get_def sqlite_integer_def)
  from r(4) have hs: "house_id house = 1" by (auto simp: example_defs get_object_or_404_def)
  from r(5,6) have s2: "s2 = 3" by (auto simp: example_defs)
  from r(7) have g: "filter (grade_matches 1 1 1) (Grade_objects ?d2) = [g]"
    by (simp only: hb cat hs)
  have "filter (grade_matches 1 1 1) (Grade_objects ?d2)
          = [\<lparr>grade_id = 4, grade_homebuyer = 1, grade_category = 1, grade_house = 1,
              grade_score = 3\<rparr>]"
    using g r(8) s2 by (auto simp: example_db_def grade_matches_def)
  moreover have "length (Grade_objects ?d2) = length (Grade_objects example_db) + 1"
    using r(9) by simp
  ultimately show ?thesis using first second before by blast
qed

text \<open>
  Claim C4: a POST to the evaluation write path that is not an AJAX request raises
  \<open>PermissionDenied\<close>, whatever it posts, and writes nothing. The handler does so for
  every request; behind dispatch the database is unchanged for every request, and a
  request that passes the permission check is answered by the handler.
\<close>

theorem C4_non_ajax_post_denied:
  assumes "\<not> is_ajax req"
  shows "EvalView_post e d u req hid = (Inl PermissionDenied, d)
       \<and> snd (EvalView_dispatch e d POST req hid) = d
       \<and> (req_user req = Some u \<and> role_object u = Some r
            \<and> EvalView_permission_check e d hid r = Inr True
          \<longrightarrow> EvalView_dispatch e d POST req hid = (Inl PermissionDenied, d))"
  using assms
  by (auto simp: EvalView_post_def EvalView_dispatch_def BaseView_dispatch_def
      split: option.splits sum.splits bool.splits)

text \<open>
  A well-formed payload sent without AJAX by the homebuyer of the house is denied.
\<close>

theorem C4_non_ajax_post_denied_witness:
  "\<not> is_ajax (example_request (example_user 20 (Homebuyer_role example_homebuyer)) False
        [(''category'', ''1''), (''score'', ''5'')])
   \<and> EvalView_permission_check example_env example_db 1 (Homebuyer_role example_homebuyer)
       = Inr True
   \<and> EvalView_dispatch example_env example_db POST
       (example_request (example_user 20 (Homebuyer_role example_homebuyer)) False
          [(''category'', ''1''), (''score'', ''5'')]) 1
     = (Inl PermissionDenied, example_db)"
proof -
  let ?u = "example_user 20 (Homebuyer_role example_homebuyer)"
  let ?req = "example_request ?u False [(''category'', ''1''), (''score'', ''5'')]"
  have h: "\<not> is_ajax ?req" by (simp add: example_request_def)
  have p: "req_user ?req = Some ?u \<and> role_object ?u = Some (Homebuyer_role example_homebuyer)
       \<and> EvalView_permission_check example_env example_db 1 (Homebuyer_role example_homebuyer)
           = Inr True"
    by (simp add: example_defs EvalView_permission_check_def sqlite_integer_def)
  from C4_non_ajax_post_denied [OF h, of example_env example_db ?u 1
      "Homebuyer_role example_homebuyer"] p h
  show ?thesis by blast
qed

section \<open>The permission check of the evaluation view\<close>

text \<open>
  Claim C5: an authenticated Homebuyer of a couple who asks for a house that is not linked
  to the couple is answered \<open>PermissionDenied\<close> on the read path and on the write path,
  and nothing is written. The key of a House that exists is an integer of the database; for
  any identifier at all the answer is neither \<open>Http404\<close> nor a page, and nothing is
  written.
\<close>

theorem C5_foreign_house_denied:
  assumes "req_user req = Some u"
      and "role_object u = Some (Homebuyer_role hb)"
      and "homebuyer_couple hb = Some cid"
      and "\<forall>h \<in> set (House_objects d). house_id h = hid \<longrightarrow> house_couple h \<noteq> cid"
  shows "(db_integer e hid \<longrightarrow> EvalView_dispatch e d m req hid = (Inl PermissionDenied, d))
       \<and> fst (EvalView_dispatch e d m req hid) \<noteq> Inl Http404
       \<and> (\<forall>resp. fst (EvalView_dispatch e d m req hid) \<noteq> Inr resp)
       \<and> snd (EvalView_dispatch e d m req hid) = d"
  using assms
  by (auto simp: EvalView_dispatch_def BaseView_dispatch_def EvalView_permission_check_def
      ALL_TYPES_ALLOWED_def list_ex_iff)

text \<open>
  House 2 exists and belongs to couple 2; the homebuyer of couple 1 is denied on both paths.
\<close>

theorem C5_foreign_house_denied_witness:
  "EvalView_dispatch example_env example_db GET
       (example_request (example_user 20 (Homebuyer_role example_homebuyer)) False []) 2
     = (Inl PermissionDenied, example_db)
   \<and> EvalView_dispatch example_env example_db POST
       (example_request (example_user 20 (Homebuyer_role example_homebuyer)) True
          [(''category'', ''1''), (''score'', ''5'')]) 2
     = (Inl PermissionDenied, example_db)
   \<and> \<lparr>house_id = 2, house_couple = 2\<rparr> \<in> set (House_objects example_db)"
proof -
  let ?u = "example_user 20 (Homebuyer_role example_homebuyer)"
  have u: "role_object ?u = Some (Homebuyer_role example_homebuyer)"
    by (simp add: example_user_def)
  have c: "homebuyer_couple example_homebuyer = Some 1" by (simp add: example_homebuyer_def)
  have h: "\<forall>h \<in> set (House_objects example_db). house_id h = 2 \<longrightarrow> house_couple h \<noteq> 1"
    by (simp add: example_db_def)
  have r1: "req_user (example_request ?u False []) = Some ?u" by (simp add: example_request_def)
  have r2: "req_user (example_request ?u True [(''category'', ''1''), (''score'', ''5'')]) = Some ?u"
    by (simp add: example_request_def)
  have m: "\<lparr>house_id = 2, house_couple = 2\<rparr> \<in> set (House_objects example_db)"
    by (simp add: example_db_def)
  have i: "db_integer example_env 2" by (simp add: example_env_def sqlite_integer_def)
  from C5_foreign_house_denied [OF r1 u c h, of example_env GET]
    C5_foreign_house_denied [OF r2 u c h, of example_env POST] m i
  show ?thesis by blast
qed

text \<open>
  An identifier the database does not take makes the house query itself raise, in the
  permission check and in the handler.
\<close>

lemma EvalView_dispatch_overflow:
  assumes "req_user req = Some u"
      and "role_object u = Some (Homebuyer_role hb)"
      and "homebuyer_couple hb = Some cid"
      and "\<not> db_integer e hid"
  shows "EvalView_dispatch e d m req hid = (Inl OverflowError, d)"
  using assms
  by (simp add: EvalView_dispatch_def BaseView_dispatch_def EvalView_permission_check_def
      ALL_TYPES_ALLOWED_def)

lemma EvalView_get_overflow: "\<not> db_integer e hid \<Longrightarrow> EvalView_get e d u r hid = Inl OverflowError"
  by (simp add: EvalView_get_def)

text \<open>
  Claim C6, as amended: an authenticated Homebuyer of a couple who asks the read path for
  a house identifier that the database takes as an integer and that no House has is
  answered \<open>PermissionDenied\<close>, since the permission check looks the house up among the
  couple's houses before the handler runs; \<open>Http404\<close> is what the handler itself raises
  for such an identifier.
\<close>

theorem C6_missing_house_denied:
  assumes "req_user req = Some u"
      and "role_object u = Some (Homebuyer_role hb)"
      and "homebuyer_couple hb = Some cid"
      and "db_integer e hid"
      and "[h \<leftarrow> House_objects d. house_id h = hid] = []"
  shows "EvalView_dispatch e d GET req hid = (Inl PermissionDenied, d)
       \<and> EvalView_get e d u (Homebuyer_role hb) hid = Inl Http404"
proof -
  from assms(5) have "\<forall>h \<in> set (House_objects d). house_id h \<noteq> hid"
    by (simp add: filter_empty_conv)
  then have "\<not> list_ex (\<lambda>h. house_couple h = cid \<and> house_id h = hid) (House_objects d)"
    by (auto simp: list_ex_iff)
  then have "EvalView_dispatch e d GET req hid = (Inl PermissionDenied, d)"
    using assms(1-4)
    by (simp add: EvalView_dispatch_def BaseView_dispatch_def EvalView_permission_check_def
        ALL_TYPES_ALLOWED_def)
  moreover have "EvalView_get e d u (Homebuyer_role hb) hid = Inl Http404"
    using assms(4,5) by (simp add: EvalView_get_def get_object_or_404_Nil)
  ultimately show ?thesis by simp
qed

text \<open>
  No house has the identifier 99. The identifier \<open>2 ^ 63\<close> is outside the claim: SQLite
  does not take it, and the request ends in \<open>OverflowError\<close>.
\<close>

theorem C6_missing_house_denied_witness:
  "db_integer example_env 99
   \<and> EvalView_dispatch example_env example_db GET
       (example_request (example_user 20 (Homebuyer_role example_homebuyer)) False []) 99
     = (Inl PermissionDenied, example_db)
   \<and> EvalView_get example_env example_db (example_user 20 (Homebuyer_role example_homebuyer))
       (Homebuyer_role example_homebuyer) 99 = Inl Http404
   \<and> \<not> db_integer example_env (2 ^ 63)
   \<and> EvalView_dispatch example_env example_db GET
       (example_request (example_user 20 (Homebuyer_role example_homebuyer)) False []) (2 ^ 63)
     = (Inl OverflowError, example_db)"
proof -
  let ?u = "example_user 20 (Homebuyer_role example_homebuyer)"
  have u: "role_object ?u = Some (Homebuyer_role example_homebuyer)"
    by (simp add: example_user_def)
  have c: "homebuyer_couple example_homebuyer = Some 1" by (simp add: example_homebuyer_def)
  have h: "[h \<leftarrow> House_objects example_db. house_id h = 99] = []"
    by (simp add: example_db_def)
  have r1: "req_user (example_request ?u False []) = Some ?u" by (simp add: example_request_def)
  have i: "db_integer example_env 99" by (simp add: example_env_def sqlite_integer_def)
  have big: "\<not> db_integer example_env (2 ^ 63)"
    by (simp add: example_env_def sqlite_integer_def)
  from C6_missing_house_denied [OF r1 u c i h] EvalView_dispatch_overflow [OF r1 u c big] i big
  show ?thesis by blast
qed

text \<open>
  Claim C6 as it was stated asks for \<open>Http404\<close>. The homebuyer of the example who
  requests house 99, an identifier SQLite takes, gets \<open>PermissionDenied\<close> instead.
\<close>

theorem C6_missing_house_counterexample:
  "req_user (example_request (example_user 20 (Homebuyer_role example_homebuyer)) False [])
     = Some (example_user 20 (Homebuyer_role example_homebuyer))
   \<and> [h \<leftarrow> House_objects example_db. house_id h = 99] = []
   \<and> fst (EvalView_dispatch example_env example_db GET
            (example_request (example_user 20 (Homebuyer_role example_homebuyer)) False []) 99)
       = Inl PermissionDenied
   \<and> fst (EvalView_dispatch example_env example_db GET
            (example_request (example_user 20 (Homebuyer_role example_homebuyer)) False []) 99)
       \<noteq> Inl Http404"
  by (simp add: example_defs view_defs Let_def)

section \<open>The score metadata\<close>

text \<open>
  Claim C8: the score metadata of the read path comes from the choices of the Grade score
  field: \<open>min_score\<close> and \<open>max_score\<close> are the least and the greatest choice value,
  \<open>min_choice\<close> and \<open>max_choice\<close> are the labels the choices give these two values
  (the last one, should a value be listed twice), and \<open>default_score\<close> is the default of
  the field. Every page the read path renders carries exactly this metadata.
\<close>

theorem C8_score_metadata:
  assumes "score_choices e \<noteq> []"
  shows "\<exists>ctx. EvalView_score_context (score_choices e) (score_default e) = Inr ctx
      \<and> min_score ctx = Min (fst ` set (score_choices e))
      \<and> max_score ctx = Max (fst ` set (score_choices e))
      \<and> map_of (rev (score_choices e)) (min_score ctx) = Some (min_choice ctx)
      \<and> map_of (rev (score_choices e)) (max_score ctx) = Some (max_choice ctx)
      \<and> (min_score ctx, min_choice ctx) \<in> set (score_choices e)
      \<and> (max_score ctx, max_choice ctx) \<in> set (score_choices e)
      \<and> default_score ctx = score_default e
      \<and> (\<forall>d u r hid couple house graded ctx'.
            EvalView_get e d u r hid = Inr (Render_houseEval couple house graded ctx')
            \<longrightarrow> ctx' = ctx)"
proof -
  from score_context_ok [OF assms, of "score_default e"] obtain ctx where
    ctx: "EvalView_score_context (score_choices e) (score_default e) = Inr ctx"
      "min_score ctx = Min (fst ` set (score_choices e))"
      "max_score ctx = Max (fst ` set (score_choices e))"
      "map_of (rev (score_choices e)) (min_score ctx) = Some (min_choice ctx)"
      "map_of (rev (score_choices e)) (max_score ctx) = Some (max_choice ctx)"
      "(min_score ctx, min_choice ctx) \<in> set (score_choices e)"
      "(max_score ctx, max_choice ctx) \<in> set (score_choices e)"
      "default_score ctx = score_default e"
    by blast
  have "ctx' = ctx"
    if "EvalView_get e d u r hid = Inr (Render_houseEval couple house graded ctx')"
    for d u r hid couple house graded ctx'
    using that ctx(1)
    by (auto simp: EvalView_get_def Let_def split: sum.splits role.splits if_splits)
  with ctx show ?thesis by blast
qed

text \<open>
  The five choices of the example, from Poor to Excellent.
\<close>

theorem C8_score_metadata_witness:
  "EvalView_score_context (score_choices example_env) (score_default example_env)
     = Inr \<lparr>min_score = 1, max_score = 5, min_choice = ''Poor'', max_choice = ''Excellent'',
            default_score = 3,
            js_scores = [(1, ''Poor''), (2, ''Below Average''), (3, ''Average''),
                         (4, ''Above Average''), (5, ''Excellent'')]\<rparr>
   \<and> Min (fst ` set (score_choices example_env)) = 1
   \<and> Max (fst ` set (score_choices example_env)) = 5"
proof -
  have ne: "score_choices example_env \<noteq> []" by (simp add: example_env_def)
  have v: "EvalView_score_context (score_choices example_env) (score_default example_env)
     = Inr \<lparr>min_score = 1, max_score = 5, min_choice = ''Poor'', max_choice = ''Excellent'',
            default_score = 3,
            js_scores = [(1, ''Poor''), (2, ''Below Average''), (3, ''Average''),
                         (4, ''Above Average''), (5, ''Excellent'')]\<rparr>"
    by (simp add: example_env_def EvalView_score_context_def py_dict_def dict_getitem_def)
  from C8_score_metadata [OF ne] v show ?thesis by auto
qed

section \<open>The home view\<close>

text \<open>
  Claim C3: a valid invitation of a realtor creates one PendingCouple and two
  PendingHomebuyers linked to it, in this order and after the rows already there, when
  both creations are accepted and both mails are sent; when any of these four steps
  raises, the exception leaves the view and the database is exactly as before.
\<close>

theorem C3_invitation_all_or_nothing:
  assumes "Couple_filter_homebuyer_user d (user_id u) = []"
      and "Realtor_filter_user d (user_id u) = [r]"
      and "form_cleaned_data e (POST_data req) = Some (first_email, second_email)"
  shows
    "let p = \<lparr>pending_couple_id = next_id (map pending_couple_id (PendingCouple_objects d)),
              pending_couple_realtor = realtor_id r\<rparr>;
         h1 = \<lparr>pending_homebuyer_id =
                  next_id (map pending_homebuyer_id (PendingHomebuyer_objects d)),
                pending_homebuyer_email = first_email,
                pending_homebuyer_pending_couple = pending_couple_id p\<rparr>;
         h2 = \<lparr>pending_homebuyer_id =
                  next_id (map pending_homebuyer_id (PendingHomebuyer_objects d @ [h1])),
                pending_homebuyer_email = second_email,
                pending_homebuyer_pending_couple = pending_couple_id p\<rparr>;
         every_step_succeeds =
           (pending_homebuyer_accepted e (PendingHomebuyer_objects d) first_email
            \<and> send_email_invite e h1
            \<and> pending_homebuyer_accepted e (PendingHomebuyer_objects d @ [h1]) second_email
            \<and> send_email_invite e h2)
     in if every_step_succeeds
        then \<exists>resp. HomeView_post e d u req =
               (Inr resp, d\<lparr>PendingCouple_objects := PendingCouple_objects d @ [p],
                             PendingHomebuyer_objects := PendingHomebuyer_objects d @ [h1, h2]\<rparr>)
        else \<exists>err. HomeView_post e d u req = (Inl err, d)"
  using assms
  by (simp add: HomeView_post_def atomic_def invite_block_eq [OF assms(2)] Let_def)

text \<open>
  The realtor of the example invites two new addresses and gets the three rows; inviting
  the same address twice is refused at the second PendingHomebuyer and leaves no row.
\<close>

theorem C3_invitation_all_or_nothing_witness:
  "(\<exists>resp. HomeView_post example_env example_db (example_user 11 (Realtor_role example_realtor))
        (example_request (example_user 11 (Realtor_role example_realtor)) False
           [(''first_email'', ''carol@example.org''), (''second_email'', ''dave@example.org'')])
      = (Inr resp,
         example_db\<lparr>PendingCouple_objects := PendingCouple_objects example_db
                       @ [\<lparr>pending_couple_id = 2, pending_couple_realtor = 2\<rparr>],
                     PendingHomebuyer_objects := PendingHomebuyer_objects example_db
                       @ [\<lparr>pending_homebuyer_id = 3, pending_homebuyer_email = ''carol@example.org'',
                           pending_homebuyer_pending_couple = 2\<rparr>,
                          \<lparr>pending_homebuyer_id = 4, pending_homebuyer_email = ''dave@example.org'',
                           pending_homebuyer_pending_couple = 2\<rparr>]\<rparr>))
   \<and> (\<exists>err. HomeView_post example_env example_db (example_user 11 (Realtor_role example_realtor))
        (example_request (example_user 11 (Realtor_role example_realtor)) False
           [(''first_email'', ''carol@example.org''), (''second_email'', ''carol@example.org'')])
      = (Inl err, example_db))"
proof -
  let ?u = "example_user 11 (Realtor_role example_realtor)"
  let ?ok = "example_request ?u False
      [(''first_email'', ''carol@example.org''), (''second_email'', ''dave@example.org'')]"
  let ?twice = "example_request ?u False
      [(''first_email'', ''carol@example.org''), (''second_email'', ''carol@example.org'')]"
  have c: "Couple_filter_homebuyer_user example_db (user_id ?u) = []"
    by (simp add: example_defs Couple_filter_homebuyer_user_def)
  have r: "Realtor_filter_user example_db (user_id ?u) = [example_realtor]"
    by (simp add: example_defs Realtor_filter_user_def)
  have f1: "form_cleaned_data example_env (POST_data ?ok)
              = Some (''carol@example.org'', ''dave@example.org'')"
    by (simp add: example_defs)
  have f2: "form_cleaned_data example_env (POST_data ?twice)
              = Some (''carol@example.org'', ''carol@example.org'')"
    by (simp add: example_defs)
  from C3_invitation_all_or_nothing [OF c r f1] C3_invitation_all_or_nothing [OF c r f2]
  show ?thesis
    by (simp add: example_defs next_id_def Let_def)
qed

text \<open>
  An actor with a Realtor row whom no Couple contains gets the realtor view, whether or not
  the realtor owns couples and whatever Homebuyer rows without a couple the actor has.
\<close>

lemma HomeView_dispatch_realtor_without_couples:
  assumes "req_user req = Some u"
      and "role_object u = Some r"
      and "\<exists>x \<in> set (Realtor_objects d). realtor_user x = user_id u"
      and "\<forall>c \<in> set (Couple_objects d). \<forall>h \<in> set (Homebuyer_objects d).
             homebuyer_user h = user_id u \<longrightarrow> homebuyer_couple h \<noteq> Some (couple_id c)"
  shows "HomeView_dispatch e d GET req =
           (Inr (Render_realtorHome
                   (coupleData_spec d (Realtor_filter_user d (user_id u))) []
                   (Realtor_filter_user d (user_id u))), d)"
proof -
  from assms(4) have "Couple_filter_homebuyer_user d (user_id u) = []"
    by (simp add: Couple_filter_homebuyer_user_Nil_iff)
  moreover from assms(3) have "Realtor_filter_user d (user_id u) \<noteq> []"
    by (simp add: Realtor_filter_user_Nil_iff)
  ultimately show ?thesis
    using assms(1,2)
    by (simp add: HomeView_dispatch_authenticated HomeView_get_def build_coupleData_eq
        House_filter_couple_Nil Let_def)
qed

text \<open>
  Claim C7: an actor whose role resolves to Homebuyer and who has no Couple still gets the
  homebuyer branch of home dispatch, and one whose role resolves to Realtor and who owns no
  Couples the realtor branch; neither reaches the fatal path. The realtor half is the lemma
  above. For the other half \<open>HomeView.get\<close> asks whether a Couple contains the user, not
  what the role is: Homebuyer 4 of the example has the role and a row and no couple, passes
  dispatch as a Homebuyer, and is told to be neither a Homebuyer nor a Realtor.
\<close>

theorem C7_homebuyer_without_couple_reaches_neither:
  "role_object (example_user 23
       (Homebuyer_role \<lparr>homebuyer_id = 4, homebuyer_user = 23, homebuyer_couple = None\<rparr>))
     = Some (Homebuyer_role \<lparr>homebuyer_id = 4, homebuyer_user = 23, homebuyer_couple = None\<rparr>)
   \<and> \<lparr>homebuyer_id = 4, homebuyer_user = 23, homebuyer_couple = None\<rparr>
       \<in> set (Homebuyer_objects example_db)
   \<and> HomeView_dispatch example_env example_db GET
       (example_request (example_user 23
          (Homebuyer_role \<lparr>homebuyer_id = 4, homebuyer_user = 23, homebuyer_couple = None\<rparr>))
          False [])
     = (Inl Neither_a_Homebuyer_nor_a_Realtor, example_db)"
  by (simp add: example_defs view_defs Let_def)

text \<open>
  Claim C9: for a realtor (an actor with a Realtor row whom no Couple contains) the couple
  data of the home page is the list of the specification: the real couples with the flag
  \<open>False\<close>, then the pending couples with the flag \<open>True\<close>. This holds for the page a
  GET renders and for the page a POST renders, there on the database the POST leaves.
\<close>

theorem C9_realtor_coupleData:
  assumes "req_user req = Some u"
      and "role_object u = Some r"
      and "Couple_filter_homebuyer_user d (user_id u) = []"
      and "Realtor_filter_user d (user_id u) = realtor"
      and "realtor \<noteq> []"
  shows "HomeView_dispatch e d GET req =
           (Inr (Render_realtorHome (coupleData_spec d realtor) [] realtor), d)
       \<and> (\<forall>resp d'. HomeView_dispatch e d POST req = (Inr resp, d') \<longrightarrow>
             resp = Render_realtorHome (coupleData_spec d' realtor) [] realtor)"
proof -
  have "HomeView_dispatch e d GET req =
           (Inr (Render_realtorHome (coupleData_spec d realtor) [] realtor), d)"
    using assms
    by (simp add: HomeView_dispatch_authenticated HomeView_get_def build_coupleData_eq
        House_filter_couple_Nil Let_def)
  moreover have "resp = Render_realtorHome (coupleData_spec d' realtor) [] realtor"
    if "HomeView_dispatch e d POST req = (Inr resp, d')" for resp d'
    using that assms
    by (auto simp: HomeView_dispatch_authenticated HomeView_post_def build_coupleData_eq
        House_filter_couple_Nil Let_def split: prod.splits sum.splits option.splits)
  ultimately show ?thesis by blast
qed

text \<open>
  Realtor 1 of the example has two couples and one pending couple; after a valid
  invitation the page of the POST lists the new pending couple as well.
\<close>

theorem C9_realtor_coupleData_witness:
  "HomeView_dispatch example_env example_db GET
     (example_request (example_user 10 (Realtor_role \<lparr>realtor_id = 1, realtor_user = 10\<rparr>))
        False [])
   = (Inr (Render_realtorHome
        [(Inl \<lparr>couple_id = 1, couple_realtor = 1\<rparr>,
          Inl [\<lparr>homebuyer_id = 1, homebuyer_user = 20, homebuyer_couple = Some 1\<rparr>,
               \<lparr>homebuyer_id = 2, homebuyer_user = 21, homebuyer_couple = Some 1\<rparr>],
          False),
         (Inl \<lparr>couple_id = 2, couple_realtor = 1\<rparr>,
          Inl [\<lparr>homebuyer_id = 3, homebuyer_user = 22, homebuyer_couple = Some 2\<rparr>,
               \<lparr>homebuyer_id = 5, homebuyer_user = 12, homebuyer_couple = Some 2\<rparr>],
          False),
         (Inr \<lparr>pending_couple_id = 1, pending_couple_realtor = 1\<rparr>,
          Inr [\<lparr>pending_homebuyer_id = 1, pending_homebuyer_email = ''ann@example.org'',
                pending_homebuyer_pending_couple = 1\<rparr>,
               \<lparr>pending_homebuyer_id = 2, pending_homebuyer_email = ''bob@example.org'',
                pending_homebuyer_pending_couple = 1\<rparr>],
          True)]
        [] [\<lparr>realtor_id = 1, realtor_user = 10\<rparr>]), example_db)
   \<and> (\<exists>d'. HomeView_dispatch example_env example_db POST
           (example_request (example_user 10 (Realtor_role \<lparr>realtor_id = 1, realtor_user = 10\<rparr>))
              False
              [(''first_email'', ''carol@example.org''), (''second_email'', ''dave@example.org'')])
         = (Inr (Render_realtorHome
                   (coupleData_spec d' [\<lparr>realtor_id = 1, realtor_user = 10\<rparr>]) []
                   [\<lparr>realtor_id = 1, realtor_user = 10\<rparr>]), d')
        \<and> map (\<lambda>(c, hs, pending). pending)
              (coupleData_spec d' [\<lparr>realtor_id = 1, realtor_user = 10\<rparr>])
            = [False, False, True, True])"
proof -
  let ?r = "\<lparr>realtor_id = 1, realtor_user = 10\<rparr>"
  let ?u = "example_user 10 (Realtor_role ?r)"
  let ?invite = "example_request ?u False
      [(''first_email'', ''carol@example.org''), (''second_email'', ''dave@example.org'')]"
  let ?d' = "example_db\<lparr>PendingCouple_objects := PendingCouple_objects example_db
                           @ [\<lparr>pending_couple_id = 2, pending_couple_realtor = 1\<rparr>],
                         PendingHomebuyer_objects := PendingHomebuyer_objects example_db
                           @ [\<lparr>pending_homebuyer_id = 3,
                               pending_homebuyer_email = ''carol@example.org'',
                               pending_homebuyer_pending_couple = 2\<rparr>,
                              \<lparr>pending_homebuyer_id = 4,
                               pending_homebuyer_email = ''dave@example.org'',
                               pending_homebuyer_pending_couple = 2\<rparr>]\<rparr>"
  have q: "req_user (example_request ?u False []) = Some ?u" "role_object ?u = Some (Realtor_role ?r)"
    by (simp_all add: example_request_def example_user_def)
  have c: "Couple_filter_homebuyer_user example_db (user_id ?u) = []"
    by (simp add: example_defs Couple_filter_homebuyer_user_def)
  have r: "Realtor_filter_user example_db (user_id ?u) = [?r]"
    by (simp add: example_defs Realtor_filter_user_def)
  have ne: "[?r] \<noteq> []" by simp
  have q': "req_user ?invite = Some ?u" by (simp add: example_request_def)
  have "\<exists>resp. HomeView_dispatch example_env example_db POST ?invite = (Inr resp, ?d')"
    by (simp add: example_defs view_defs Let_def)
  then obtain resp where
    post: "HomeView_dispatch example_env example_db POST ?invite = (Inr resp, ?d')" ..
  from C9_realtor_coupleData [OF q' q(2) c r ne, of example_env] post
  have resp: "resp = Render_realtorHome (coupleData_spec ?d' [?r]) [] [?r]" by blast
  have flags: "map (\<lambda>(c, hs, pending). pending) (coupleData_spec ?d' [?r])
                 = [False, False, True, True]"
    by (simp add: coupleData_spec_def example_db_def Couple_filter_realtor_def
        PendingCouple_filter_realtor_def)
  have get: "HomeView_dispatch example_env example_db GET (example_request ?u False [])
               = (Inr (Render_realtorHome (coupleData_spec example_db [?r]) [] [?r]), example_db)"
    using C9_realtor_coupleData [OF q c r ne, of example_env] by blast
  have spec: "coupleData_spec example_db [?r] =
        [(Inl \<lparr>couple_id = 1, couple_realtor = 1\<rparr>,
          Inl [\<lparr>homebuyer_id = 1, homebuyer_user = 20, homebuyer_couple = Some 1\<rparr>,
               \<lparr>homebuyer_id = 2, homebuyer_user = 21, homebuyer_couple = Some 1\<rparr>],
          False),
         (Inl \<lparr>couple_id = 2, couple_realtor = 1\<rparr>,
          Inl [\<lparr>homebuyer_id = 3, homebuyer_user = 22, homebuyer_couple = Some 2\<rparr>,
               \<lparr>homebuyer_id = 5, homebuyer_user = 12, homebuyer_couple = Some 2\<rparr>],
          False),
         (Inr \<lparr>pending_couple_id = 1, pending_couple_realtor = 1\<rparr>,
          Inr [\<lparr>pending_homebuyer_id = 1, pending_homebuyer_email = ''ann@example.org'',
                pending_homebuyer_pending_couple = 1\<rparr>,
               \<lparr>pending_homebuyer_id = 2, pending_homebuyer_email = ''bob@example.org'',
                pending_homebuyer_pending_couple = 1\<rparr>],
          True)]"
    by (simp add: coupleData_spec_def example_db_def Couple_filter_realtor_def
        PendingCouple_filter_realtor_def Homebuyer_filter_couple_def
        PendingHomebuyer_filter_pending_couple_def)
  from get spec post resp flags show ?thesis by (intro conjI exI [of _ ?d']) simp_all
qed

text \<open>
  The exception \<open>Neither a Homebuyer nor a Realtor\<close> is raised by both handlers exactly
  when no Couple contains the caller and the caller has no Realtor row; the role object
  plays no part. The homebuyer condition comes first in both.
\<close>

lemma HomeView_get_neither_iff:
  "HomeView_get d u = Inl Neither_a_Homebuyer_nor_a_Realtor \<longleftrightarrow>
     Couple_filter_homebuyer_user d (user_id u) = [] \<and> Realtor_filter_user d (user_id u) = []"
  by (simp add: HomeView_get_def Let_def)

lemma invite_block_not_neither:
  "Realtor_filter_user d (user_id u) \<noteq> [] \<Longrightarrow>
   invite_block e u a b d \<noteq> (Inl Neither_a_Homebuyer_nor_a_Realtor, d')"
  by (cases "Realtor_filter_user d (user_id u)" rule: queryset_get.cases)
     (auto simp: invite_block_def user_realtor_def PendingCouple_create_def invite_homebuyer_def
        PendingHomebuyer_create_def Let_def split: prod.splits sum.splits if_splits)

lemma HomeView_post_neither_iff:
  "fst (HomeView_post e d u req) = Inl Neither_a_Homebuyer_nor_a_Realtor \<longleftrightarrow>
     Couple_filter_homebuyer_user d (user_id u) = [] \<and> Realtor_filter_user d (user_id u) = []"
proof (cases "Couple_filter_homebuyer_user d (user_id u) = []")
  case False
  then show ?thesis by (simp add: HomeView_post_def Let_def)
next
  case True
  show ?thesis
  proof (cases "Realtor_filter_user d (user_id u) = []")
    case True
    with \<open>Couple_filter_homebuyer_user d (user_id u) = []\<close> show ?thesis
      by (simp add: HomeView_post_def Let_def)
  next
    case False
    have "atomic (invite_block e u a b) d \<noteq> (Inl Neither_a_Homebuyer_nor_a_Realtor, d')"
      for a b d'
      using invite_block_not_neither [OF False, of e a b]
      by (auto simp: atomic_def split: prod.splits sum.splits)
    then show ?thesis using False True
      by (auto simp: HomeView_post_def Let_def split: prod.splits sum.splits option.splits)
  qed
qed

lemma HomeView_get_homebuyer_branch:
  "Couple_filter_homebuyer_user d (user_id u) \<noteq> [] \<Longrightarrow>
   HomeView_get d u = Inr (Render_homebuyerHome (Couple_filter_homebuyer_user d (user_id u))
      (House_filter_couple d (Couple_filter_homebuyer_user d (user_id u))))"
  by (simp add: HomeView_get_def Let_def)

lemma HomeView_post_homebuyer_branch:
  "Couple_filter_homebuyer_user d (user_id u) \<noteq> [] \<Longrightarrow>
   HomeView_post e d u req = (Inl UnboundLocalError, d)"
  by (simp add: HomeView_post_def Let_def)

text \<open>
  Claim C10: home dispatch tests the homebuyer condition before the realtor condition, so
  an actor who satisfies both renders the homebuyer view. \<open>HomeView.get\<close> does; the
  homebuyer branch of \<open>HomeView.post\<close> reads the local \<open>couples\<close> before anything
  assigned it and raises \<open>UnboundLocalError\<close>. User 12 of the example is in couple 2
  and has a Realtor row.
\<close>

theorem C10_homebuyer_post_crashes:
  "Couple_filter_homebuyer_user example_db 12 = [\<lparr>couple_id = 2, couple_realtor = 1\<rparr>]
   \<and> Realtor_filter_user example_db 12 = [\<lparr>realtor_id = 3, realtor_user = 12\<rparr>]
   \<and> HomeView_get example_db (example_user 12 (Realtor_role \<lparr>realtor_id = 3, realtor_user = 12\<rparr>))
       = Inr (Render_homebuyerHome [\<lparr>couple_id = 2, couple_realtor = 1\<rparr>]
                [\<lparr>house_id = 2, house_couple = 2\<rparr>])
   \<and> HomeView_post example_env example_db
         (example_user 12 (Realtor_role \<lparr>realtor_id = 3, realtor_user = 12\<rparr>))
         (example_request (example_user 12 (Realtor_role \<lparr>realtor_id = 3, realtor_user = 12\<rparr>))
            False [])
       = (Inl UnboundLocalError, example_db)"
  by (simp add: example_defs view_defs Let_def)

end
